theory Spec2Isabelle
  imports Main "HOL-Library.Word"
begin

section \<open>The KAS SOAP client of terraform-provider-allinkl\<close>

text \<open>
  A shallow embedding of \<^verbatim>\<open>internal/allinkl\<close>: the generic response node
  \<^verbatim>\<open>Item\<close> and its interpreter \<^verbatim>\<open>getValue\<close>/\<^verbatim>\<open>getKey\<close>, the login
  \<^verbatim>\<open>Identifier.Authentication\<close>, the request pipeline \<^verbatim>\<open>Client.do\<close>, the
  flood deadline \<^verbatim>\<open>Client.updateFloodTime\<close> and the four DNS operations.

  Pointers that may be nil are \<open>option\<close>s, a nil dereference is the error
  \<open>NilPointerDereference\<close>, Go's \<^verbatim>\<open>map[string]any\<close> is a map \<open>string \<rightharpoonup> any\<close>
  (no order, as in Go), \<^verbatim>\<open>int64\<close> is \<open>64 word\<close>. Wall-clock instants and durations
  are integers (nanoseconds).
\<close>

subsection \<open>The standard library's scalar parsers\<close>

text \<open>
  \<^verbatim>\<open>strconv.ParseBool\<close>, \<^verbatim>\<open>strconv.ParseUint\<close> and \<^verbatim>\<open>strconv.ParseInt\<close> belong
  to Go's standard library; they are transcribed here for the arguments the client passes
  (base 10, bit size 64). Each returns its value together with the error (\<open>None\<close> is
  \<^verbatim>\<open>nil\<close>); \<^verbatim>\<open>*NumError\<close> is reduced to its \<^verbatim>\<open>Err\<close> field.
\<close>

datatype NumError = ErrSyntax | ErrRange

text \<open>
  \<^verbatim>\<open>
  switch str {
  case "1", "t", "T", "true", "TRUE", "True":  return true, nil
  case "0", "f", "F", "false", "FALSE", "False": return false, nil
  }
  return false, syntaxError("ParseBool", str)
  \<close>
\<close>

definition ParseBool :: "string \<Rightarrow> bool \<times> NumError option" where
  "ParseBool str =
     (if str \<in> set [''1'', ''t'', ''T'', ''true'', ''TRUE'', ''True''] then (True, None)
      else if str \<in> set [''0'', ''f'', ''F'', ''false'', ''FALSE'', ''False'']
      then (False, None)
      else (False, Some ErrSyntax))"

definition isDigit :: "char \<Rightarrow> bool" where
  "isDigit c = (48 \<le> (of_char c :: nat) \<and> (of_char c :: nat) \<le> 57)"

definition maxUint64 :: "64 word" where
  "maxUint64 = 18446744073709551615"

text \<open>
  The digit loop of \<^verbatim>\<open>ParseUint\<close>. In base 10 a byte that is not a decimal digit is
  a syntax error (a letter has digit value at least 10, any other byte has none). The
  overflow tests come after the test of the byte and return at once, so the bytes behind
  an overflowing prefix are never looked at.
  \<^verbatim>\<open>
  for _, c := range []byte(s) {
      ... d = c - '0' ... default: return 0, syntaxError
      if n >= cutoff { return maxVal, rangeError }      // cutoff = maxUint64/10 + 1
      n *= uint64(base)
      n1 := n + uint64(d)
      if n1 < n || n1 > maxVal { return maxVal, rangeError }
      n = n1
  }
  return n, nil
  \<close>
\<close>

fun ParseUint_loop :: "64 word \<Rightarrow> string \<Rightarrow> 64 word \<times> NumError option" where
  "ParseUint_loop n [] = (n, None)"
| "ParseUint_loop n (c # cs) =
     (if \<not> isDigit c then (0, Some ErrSyntax)
      else if n \<ge> maxUint64 div 10 + 1 then (maxUint64, Some ErrRange)
      else
        (let n' = n * 10;
             n1 = n' + of_nat (of_char c - 48)
         in if n1 < n' then (maxUint64, Some ErrRange)
            else ParseUint_loop n1 cs))"

definition ParseUint :: "string \<Rightarrow> 64 word \<times> NumError option" where
  "ParseUint s = (if s = [] then (0, Some ErrSyntax) else ParseUint_loop 0 s)"

text \<open>
  \<^verbatim>\<open>
  if s == "" { return 0, syntaxError }
  neg := false
  if s[0] == '+' { s = s[1:] } else if s[0] == '-' { neg = true; s = s[1:] }
  un, err = ParseUint(s, base, bitSize)
  if err != nil && err.(*NumError).Err != ErrRange { return 0, err }
  cutoff := uint64(1 << uint(bitSize-1))
  if !neg && un >= cutoff { return int64(cutoff - 1), rangeError }
  if neg && un > cutoff { return -int64(cutoff), rangeError }
  n := int64(un); if neg { n = -n }
  return n, nil
  \<close>
\<close>

fun ParseInt :: "string \<Rightarrow> 64 word \<times> NumError option" where
  "ParseInt [] = (0, Some ErrSyntax)"
| "ParseInt (c # cs) =
     (let neg = (c = CHR ''-'');
          s = (if c = CHR ''+'' \<or> c = CHR ''-'' then cs else c # cs);
          (un, err) = ParseUint s;
          cutoff = (2 ^ 63 :: 64 word)
      in if err = Some ErrSyntax then (0, err)
         else if \<not> neg \<and> un \<ge> cutoff then (cutoff - 1, Some ErrRange)
         else if neg \<and> un > cutoff then (- cutoff, Some ErrRange)
         else (if neg then - un else un, None))"

subsection \<open>Library functions taken as parameters\<close>

text \<open>
  The floating-point computations of the libraries stay outside the model; the client is
  parameterised by them. \<open>'f\<close> stands for \<^verbatim>\<open>float64\<close>.
  \<^item> \<open>Zero\<close> is the \<^verbatim>\<open>float64\<close> 0.
  \<^item> \<open>Special s\<close> is \<^verbatim>\<open>special(s)\<close> of \<^verbatim>\<open>strconv\<close>, which recognises the texts
    of the infinities and of NaN: \<open>None\<close> when its \<^verbatim>\<open>ok\<close> is false, else the value and the
    number of bytes it stands in.
  \<^item> \<open>ReadFloat s\<close> is \<^verbatim>\<open>readFloat(s)\<close> with the conversion behind it: the number of
    bytes \<^verbatim>\<open>readFloat\<close> consumed and, when the text is accepted (\<^verbatim>\<open>ok\<close>, and
    \<^verbatim>\<open>d.set\<close> in the slow path), the \<^verbatim>\<open>float64\<close> the conversion gives together with
    whether it overflowed; \<open>None\<close> when the text is rejected.
  \<^item> \<open>Seconds d\<close> is \<^verbatim>\<open>time.Duration(d * float64(time.Second))\<close>: the duration, in
    nanoseconds, that \<^verbatim>\<open>updateFloodTime\<close> adds to the current time.
\<close>

record 'f lib =
  Zero :: 'f
  Special :: "string \<Rightarrow> ('f \<times> nat) option"
  ReadFloat :: "string \<Rightarrow> nat \<times> ('f \<times> bool) option"
  Seconds :: "'f \<Rightarrow> int"

text \<open>
  \<^verbatim>\<open>strconv.ParseFloat(s, 64)\<close> around these parameters: \<^verbatim>\<open>atof64\<close> (which
  \<^verbatim>\<open>parseFloatPrefix\<close> calls for the bit size 64) and the test of the length.
  \<^verbatim>\<open>
  func atof64(s string) (f float64, n int, err error) {
      if val, n, ok := special(s); ok { return val, n, nil }
      mantissa, exp, neg, trunc, hex, n, ok := readFloat(s)
      if !ok { return 0, n, syntaxError(fnParseFloat, s) }
      ...                                  // the conversion: f, or f with rangeError,
      return f, n, err                     // or 0 with syntaxError when d.set fails
  }
  func ParseFloat(s string, bitSize int) (float64, error) {
      f, n, err := parseFloatPrefix(s, bitSize)
      if n != len(s) && (err == nil || err.(*NumError).Err != ErrSyntax) {
          return 0, syntaxError(fnParseFloat, s)
      }
      return f, err
  }
  \<close>
\<close>

definition atof64 :: "'f lib \<Rightarrow> string \<Rightarrow> 'f \<times> nat \<times> NumError option" where
  "atof64 L s =
     (case Special L s of
        Some (val, n) \<Rightarrow> (val, n, None)
      | None \<Rightarrow>
         (case ReadFloat L s of
            (n, None) \<Rightarrow> (Zero L, n, Some ErrSyntax)
          | (n, Some (f, ovf)) \<Rightarrow> (f, n, if ovf then Some ErrRange else None)))"

definition ParseFloat :: "'f lib \<Rightarrow> string \<Rightarrow> 'f \<times> NumError option" where
  "ParseFloat L s =
     (case atof64 L s of
        (f, n, err) \<Rightarrow>
          if n \<noteq> length s \<and> err \<noteq> Some ErrSyntax then (Zero L, Some ErrSyntax)
          else (f, err))"

text \<open>
  One instance, for evaluating the model on concrete inputs: a \<^verbatim>\<open>float64\<close> that is a
  whole number of seconds, as an \<open>int\<close> below \<open>2^53\<close> in magnitude (the integers that are
  \<^verbatim>\<open>float64\<close>s without gaps; \<open>-0\<close> is not told apart from \<open>0\<close>). Every theorem below
  holds for all instances.

  \<open>readWhole\<close> reads an optional sign and a run of decimal digits. It agrees with
  \<^verbatim>\<open>readFloat\<close> and the conversion on the texts that have, behind the optional sign, at
  most 15 digits and then end or go on with a byte other than \<open>.\<close>, \<open>_\<close>, \<open>e\<close>,
  \<open>E\<close>, \<open>x\<close>, \<open>X\<close>, and that do not begin a number with \<open>.\<close> or \<open>_\<close>. The
  instance recognises no infinity and no NaN: it agrees with \<^verbatim>\<open>special\<close> on the texts
  that do not begin, behind the sign, with \<open>i\<close>, \<open>I\<close>, \<open>n\<close> or \<open>N\<close>. No statement
  below applies the instance to a text outside these.
\<close>

definition digitsValue :: "string \<Rightarrow> int" where
  "digitsValue ds = foldl (\<lambda>a c. 10 * a + (int (of_char c) - 48)) 0 ds"

definition readWhole :: "string \<Rightarrow> nat \<times> (int \<times> bool) option" where
  "readWhole s =
     (let neg = (s \<noteq> [] \<and> hd s = CHR ''-'');
          i = (if s \<noteq> [] \<and> (hd s = CHR ''+'' \<or> hd s = CHR ''-'') then 1 else 0);
          ds = takeWhile isDigit (drop i s)
      in if ds = [] then (i, None)
         else (i + length ds, Some (if neg then - digitsValue ds else digitsValue ds, False)))"

text \<open>
  The conversion of whole seconds as on amd64. The product with \<open>10^9\<close> is a
  \<^verbatim>\<open>float64\<close>: exact below \<open>2^62\<close> for these values, and rounded to the nearest
  multiple of 1024, ties to even, from there to \<open>2^63\<close>. The conversion to \<^verbatim>\<open>int64\<close>
  truncates; of a value that \<^verbatim>\<open>int64\<close> cannot hold it gives \<open>- 2^63\<close> (the language
  leaves that result to the implementation).
\<close>

definition roundTo1024 :: "int \<Rightarrow> int" where
  "roundTo1024 x =
     (let q = x div 1024; m = x mod 1024
      in if m < 512 then q * 1024
         else if m > 512 then (q + 1) * 1024
         else (if even q then q else q + 1) * 1024)"

definition secondsAmd64 :: "int \<Rightarrow> int" where
  "secondsAmd64 d =
     (let p = d * 1000000000;
          r = (if \<bar>p\<bar> < 2 ^ 62 then p else roundTo1024 p)
      in if - (2 ^ 63) \<le> r \<and> r < 2 ^ 63 then r else - (2 ^ 63))"

definition wholeSeconds :: "int lib" where
  "wholeSeconds =
     \<lparr>Zero = 0, Special = (\<lambda>s. None), ReadFloat = readWhole, Seconds = secondsAmd64\<rparr>"

subsection \<open>The generic value node and its interpreter\<close>

text \<open>
  \<^verbatim>\<open>
  type Item struct {
      Text  string  `xml:",chardata"`
      Type  string  `xml:"type,attr"`
      Raw   string  `xml:"nil,attr"`
      Key   *Item   `xml:"key"`
      Value *Item   `xml:"value"`
      Items []*Item `xml:"item"`
  }
  \<close>
  The elements of \<^verbatim>\<open>Items\<close> are pointers that the XML decoder allocates, never nil.
\<close>

datatype Item = Item (Text: string) (Type: string) (Raw: string)
  (Key: "Item option") (Value: "Item option") (Items: "Item list")

text \<open>The values of Go's \<^verbatim>\<open>any\<close> that \<^verbatim>\<open>getValue\<close> returns.\<close>

datatype 'f any =
    is_VBool: VBool bool
  | is_VString: VString string
  | is_VFloat: VFloat 'f
  | is_VInt: VInt "64 word"
  | is_VSlice: VSlice "'f any list"
  | is_VMap: VMap (entries: "string \<Rightarrow> 'f any option")

text \<open>
  \<^verbatim>\<open>
  func getKey(item *Item) string {
      if item.Key == nil { return "" }
      return item.Key.Text
  }
  \<close>
\<close>

fun getKey :: "Item \<Rightarrow> string" where
  "getKey (Item text type raw key val items) =
     (case key of None \<Rightarrow> [] | Some k \<Rightarrow> Text k)"

text \<open>
  \<^verbatim>\<open>getValue\<close>: the \<^verbatim>\<open>switch\<close> with its cases in the order of the source; the two
  \<^verbatim>\<open>range\<close> loops are left folds over \<^verbatim>\<open>item.Items\<close> (\<^verbatim>\<open>append\<close> to the slice,
  assignment \<^verbatim>\<open>v[getKey(i)] = getValue(i)\<close> to the map). The errors of the three parsers
  are dropped (\<^verbatim>\<open>v, _ := ...\<close>).
\<close>

fun getValue :: "'f lib \<Rightarrow> Item \<Rightarrow> 'f any" where
  "getValue L (Item text type raw key val items) =
     (if raw \<noteq> [] then VBool (fst (ParseBool raw))
      else if text \<noteq> [] then
        (if type = ''xsd:string'' then VString text
         else if type = ''xsd:float'' then VFloat (fst (ParseFloat L text))
         else if type = ''xsd:int'' then VInt (fst (ParseInt text))
         else VString text)
      else (case val of
          Some v \<Rightarrow> getValue L v
        | None \<Rightarrow>
           if length items > 0 \<and> type = ''SOAP-ENC:Array''
           then VSlice (foldl (\<lambda>v i. v @ [getValue L i]) [] items)
           else if length items > 0
           then VMap (foldl (\<lambda>v i. v(getKey i \<mapsto> getValue L i)) Map.empty items)
           else VString []))"

subsection \<open>Envelopes, faults and errors\<close>

text \<open>
  \<^verbatim>\<open>Fault\<close> has the fields \<^verbatim>\<open>Code\<close>, \<^verbatim>\<open>Message\<close> and \<^verbatim>\<open>Actor\<close>.
  \<^verbatim>\<open>KasResponse\<close> has the one field \<^verbatim>\<open>Return *Item\<close>. The two bodies have two
  pointer fields each, in this order: \<^verbatim>\<open>KasAPIBody{KasAPIResponse *KasResponse; Fault *Fault}\<close>
  and \<^verbatim>\<open>KasAuthBody{KasAuthResponse *KasResponse; Fault *Fault}\<close>; an envelope has the
  one field \<^verbatim>\<open>Body\<close>.
\<close>

record Fault =
  Code :: string
  Message :: string
  Actor :: string

datatype KasResponse = KasResponse "Item option"

datatype KasAPIBody = KasAPIBody "KasResponse option" "Fault option"

datatype KasAPIResponseEnvelope = KasAPIResponseEnvelope KasAPIBody

datatype KasAuthBody = KasAuthBody "KasResponse option" "Fault option"

datatype KasAuthEnvelope = KasAuthEnvelope KasAuthBody

text \<open>
  The errors the client returns. \<open>DoError\<close> is \<^verbatim>\<open>*HTTPDoError\<close>, \<open>StatusCodeError\<close>
  is \<^verbatim>\<open>*UnexpectedStatusCodeError\<close> with its status code, \<open>ReadBodyError\<close> and
  \<open>DecodeXMLError\<close> are the two errors of \<^verbatim>\<open>decodeXML\<close>, \<open>RemoteFault\<close> is the
  \<^verbatim>\<open>*Fault\<close> of the envelope returned as an error, \<open>StructDecodeError\<close> wraps the
  error of \<^verbatim>\<open>mapstructure.Decode\<close>, \<open>RequestError\<close> stands for the two errors of
  building a request. \<open>NilPointerDereference\<close> is the run-time panic; it leaves the
  callers as an error does, without running their remaining statements.
\<close>

datatype error =
    DoError
  | StatusCodeError int
  | ReadBodyError
  | DecodeXMLError
  | RemoteFault Fault
  | StructDecodeError
  | RequestError
  | NilPointerDereference

text \<open>
  What \<^verbatim>\<open>HTTPClient.Do\<close> returns: \<open>None\<close> when it returns an error, else the
  response. The body of a response is represented by the result of \<^verbatim>\<open>decodeXML\<close> on
  it (reading and XML decoding belong to the standard library).
\<close>

datatype 'e Response = Response int "error + 'e"

subsection \<open>Requests\<close>

text \<open>
  The fields in the order of the constructors' arguments:
  \<^verbatim>\<open>AuthRequest{Login, AuthData, AuthType, SessionLifetime, SessionUpdateLifetime}\<close>,
  \<^verbatim>\<open>DNSRequest{RecordId, ZoneHost, RecordType, RecordName, RecordData, RecordAux}\<close>,
  \<^verbatim>\<open>KasRequest{Login, AuthType, AuthData, Action, RequestParams}\<close>. The parameters of
  a request are a \<^verbatim>\<open>map[string]string\<close> or a \<^verbatim>\<open>DNSRequest\<close>. A request is sent as
  the JSON of this value inside the envelope, so the value stands for the request.
\<close>

datatype AuthRequest = AuthRequest string string string int string

datatype DNSRequest = DNSRequest string string string string string int

datatype RequestParams = ParamsMap "string \<Rightarrow> string option" | ParamsRecord DNSRequest

datatype KasRequest = KasRequest string string string string RequestParams

subsection \<open>The client, the clock and the network\<close>

text \<open>
  \<open>EvLock\<close> and \<open>EvUnlock\<close> are \<^verbatim>\<open>muFloodTime.Lock()\<close> and \<^verbatim>\<open>Unlock()\<close>,
  \<open>EvSleep d\<close> is \<^verbatim>\<open>time.Sleep(d)\<close>, \<open>EvAuth r t\<close> and \<open>EvApi r t\<close> are the requests
  handed to \<^verbatim>\<open>HTTPClient.Do\<close> at time \<open>t\<close> by \<^verbatim>\<open>Authentication\<close> and by \<^verbatim>\<open>do\<close>,
  \<open>EvGetValue\<close> is the call of \<^verbatim>\<open>getValue\<close> in \<^verbatim>\<open>do\<close> and \<open>EvDecode\<close> the call of
  \<^verbatim>\<open>mapstructure.Decode\<close>.
\<close>

datatype event =
    EvLock
  | EvUnlock
  | EvSleep int
  | EvAuth AuthRequest int
  | EvApi KasRequest int
  | EvGetValue
  | EvDecode

record Identifier =
  login :: string
  password :: string

text \<open>
  The state one operation runs in: the fields of the client that matter
  (\<^verbatim>\<open>identifier\<close> as \<open>ident\<close>, \<^verbatim>\<open>floodTime\<close>), the wall clock \<open>now\<close> that \<^verbatim>\<open>time.Now()\<close>
  reads, and the trace of the events so far. \<^verbatim>\<open>baseURL\<close>, \<^verbatim>\<open>authEndpoint\<close> and the
  two \<^verbatim>\<open>HTTPClient\<close>s are fixed by \<^verbatim>\<open>NewClient\<close>. One operation runs alone: no
  other goroutine changes the state between its steps.
\<close>

record state =
  ident :: Identifier
  floodTime :: int
  now :: int
  trace :: "event list"

text \<open>
  What the network and the scheduler do during one operation: the outcome of the login
  request and of the API request, the time each takes, and by how much \<^verbatim>\<open>time.Sleep\<close>
  oversleeps (it pauses for at least the duration asked for).
\<close>

record net =
  authHTTP :: "KasAuthEnvelope Response option"
  authLatency :: nat
  apiHTTP :: "KasAPIResponseEnvelope Response option"
  apiLatency :: nat
  overshoot :: nat

definition emit :: "event \<Rightarrow> state \<Rightarrow> state" where
  "emit e s = s\<lparr>trace := trace s @ [e]\<rparr>"

text \<open>\<^verbatim>\<open>time.Until(t)\<close> is \<^verbatim>\<open>t.Sub(time.Now())\<close>.\<close>

definition Until :: "state \<Rightarrow> int \<Rightarrow> int" where
  "Until s t = t - now s"

text \<open>\<^verbatim>\<open>time.Sleep(d)\<close> returns at once when \<open>d \<le> 0\<close>.\<close>

definition Sleep :: "net \<Rightarrow> int \<Rightarrow> state \<Rightarrow> state" where
  "Sleep N d s = emit (EvSleep d) (s\<lparr>now := now s + (if d \<le> 0 then 0 else d + int (overshoot N))\<rparr>)"

subsection \<open>The token in the context\<close>

text \<open>
  A context is represented by the value it holds under \<^verbatim>\<open>tokenKey\<close> when that is a
  string.
  \<^verbatim>\<open>
  func WithContext(ctx context.Context, credential string) context.Context {
      return context.WithValue(ctx, tokenKey, credential)
  }
  func getToken(ctx context.Context) string {
      credential, ok := ctx.Value(tokenKey).(string)
      if !ok { return "" }
      return credential
  }
  \<close>
\<close>

type_synonym Context = "string option"

definition WithContext :: "Context \<Rightarrow> string \<Rightarrow> Context" where
  "WithContext ctx credential = Some credential"

definition getToken :: "Context \<Rightarrow> string" where
  "getToken ctx = (case ctx of None \<Rightarrow> [] | Some credential \<Rightarrow> credential)"

subsection \<open>Authentication\<close>

text \<open>
  \<^verbatim>\<open>Identifier.Authentication\<close>. \<^verbatim>\<open>json.Marshal\<close> cannot fail on an \<^verbatim>\<open>AuthRequest\<close>
  (strings and an int) and \<^verbatim>\<open>http.NewRequestWithContext\<close> cannot fail on the method
  POST, the constant \<^verbatim>\<open>authEndpoint\<close> and a context that \<^verbatim>\<open>getToken\<close> has already
  used, so the two early returns behind them have no branch here. The token returned is
  \<^verbatim>\<open>envlp.Body.KasAuthResponse.Return.Text\<close>, read through two pointers.
\<close>

definition Authentication :: "net \<Rightarrow> Context \<Rightarrow> state \<Rightarrow> (error + string) \<times> state" where
  "Authentication N ctx s =
     (if getToken ctx \<noteq> [] then (Inr (getToken ctx), s)
      else
        (let ar = AuthRequest (login (ident s)) (password (ident s)) ''plain'' 300 ''Y'';
             s1 = (emit (EvAuth ar (now s)) s)\<lparr>now := now s + int (authLatency N)\<rparr>
         in case authHTTP N of
              None \<Rightarrow> (Inl DoError, s1)
            | Some (Response code body) \<Rightarrow>
               if code \<noteq> 200 then (Inl (StatusCodeError code), s1)
               else (case body of
                   Inl err \<Rightarrow> (Inl err, s1)
                 | Inr (KasAuthEnvelope (KasAuthBody resp fault)) \<Rightarrow>
                    (case fault of
                       Some f \<Rightarrow> (Inl (RemoteFault f), s1)
                     | None \<Rightarrow>
                        (case resp of
                           None \<Rightarrow> (Inl NilPointerDereference, s1)
                         | Some (KasResponse ret) \<Rightarrow>
                            (case ret of
                               None \<Rightarrow> (Inl NilPointerDereference, s1)
                             | Some item \<Rightarrow> (Inr (Text item), s1)))))))"

subsection \<open>The request pipeline\<close>

text \<open>
  \<^verbatim>\<open>Client.newRequest\<close>. Neither error return is reachable from the four operations:
  \<^verbatim>\<open>json.Marshal\<close> does not fail on strings, an int, a \<^verbatim>\<open>map[string]string\<close> or a
  \<^verbatim>\<open>DNSRequest\<close>, and the URL is the constant \<^verbatim>\<open>apiEndpoint\<close>. The result keeps the
  type of the source, and the callers keep their test of it.
\<close>

definition newRequest :: "state \<Rightarrow> Context \<Rightarrow> string \<Rightarrow> RequestParams \<Rightarrow> error + KasRequest" where
  "newRequest s ctx action requestParams =
     Inr (KasRequest (login (ident s)) ''session'' (getToken ctx) action requestParams)"

text \<open>
  \<^verbatim>\<open>Client.do\<close>. \<open>decode\<close> is \<^verbatim>\<open>mapstructure.Decode(raw, result)\<close> of the library
  \<^verbatim>\<open>mapstructure\<close>, a parameter: \<open>None\<close> when it returns an error, else the struct it
  filled.
  \<^verbatim>\<open>
  c.muFloodTime.Lock()
  time.Sleep(time.Until(c.floodTime))
  c.muFloodTime.Unlock()
  resp, err := c.HTTPClient.Do(req)
  if err != nil { return NewHTTPDoError(req, err) }
  if resp.StatusCode != http.StatusOK { return NewUnexpectedResponseStatusCodeError(req, resp) }
  envlp, err := decodeXML[KasAPIResponseEnvelope](resp.Body)
  if err != nil { return err }
  if envlp.Body.Fault != nil { return envlp.Body.Fault }
  raw := getValue(envlp.Body.KasAPIResponse.Return)
  err = mapstructure.Decode(raw, result)
  if err != nil { return fmt.Errorf("response struct decode: %w", err) }
  return nil
  \<close>
  \<^verbatim>\<open>envlp.Body.KasAPIResponse.Return\<close> dereferences \<^verbatim>\<open>KasAPIResponse\<close> before the
  call; \<^verbatim>\<open>getValue\<close> dereferences its argument in its first case.
\<close>

definition do ::
  "'f lib \<Rightarrow> ('f any \<Rightarrow> 'g option) \<Rightarrow> net \<Rightarrow> KasRequest \<Rightarrow> state \<Rightarrow> (error + 'g) \<times> state" where
  "do L decode N req s =
     (let s1 = emit EvLock s;
          s2 = Sleep N (Until s1 (floodTime s1)) s1;
          s3 = emit EvUnlock s2;
          s4 = (emit (EvApi req (now s3)) s3)\<lparr>now := now s3 + int (apiLatency N)\<rparr>
      in case apiHTTP N of
           None \<Rightarrow> (Inl DoError, s4)
         | Some (Response code body) \<Rightarrow>
            if code \<noteq> 200 then (Inl (StatusCodeError code), s4)
            else (case body of
                Inl err \<Rightarrow> (Inl err, s4)
              | Inr (KasAPIResponseEnvelope (KasAPIBody resp fault)) \<Rightarrow>
                 (case fault of
                    Some f \<Rightarrow> (Inl (RemoteFault f), s4)
                  | None \<Rightarrow>
                     (case resp of
                        None \<Rightarrow> (Inl NilPointerDereference, s4)
                      | Some (KasResponse ret) \<Rightarrow>
                         (let s5 = emit EvGetValue s4
                          in case ret of
                               None \<Rightarrow> (Inl NilPointerDereference, s5)
                             | Some item \<Rightarrow>
                                (let raw = getValue L item;
                                     s6 = emit EvDecode s5
                                 in case decode raw of
                                      None \<Rightarrow> (Inl StructDecodeError, s6)
                                    | Some g \<Rightarrow> (Inr g, s6)))))))"

text \<open>
  The two halves of \<^verbatim>\<open>do\<close>, for statements about what other callers of the same
  client may do in between: \<open>doWait\<close> is its first three statements, up to
  \<^verbatim>\<open>c.muFloodTime.Unlock()\<close>, and \<open>doSend\<close> the rest, from
  \<^verbatim>\<open>c.HTTPClient.Do(req)\<close> on. The mutex is free between the two, and
  \<^verbatim>\<open>updateFloodTime\<close> of another goroutine can run there.
\<close>

definition doWait :: "net \<Rightarrow> state \<Rightarrow> state" where
  "doWait N s =
     (let s1 = emit EvLock s;
          s2 = Sleep N (Until s1 (floodTime s1)) s1
      in emit EvUnlock s2)"

definition doSend ::
  "'f lib \<Rightarrow> ('f any \<Rightarrow> 'g option) \<Rightarrow> net \<Rightarrow> KasRequest \<Rightarrow> state \<Rightarrow> (error + 'g) \<times> state" where
  "doSend L decode N req s3 =
     (let s4 = (emit (EvApi req (now s3)) s3)\<lparr>now := now s3 + int (apiLatency N)\<rparr>
      in case apiHTTP N of
           None \<Rightarrow> (Inl DoError, s4)
         | Some (Response code body) \<Rightarrow>
            if code \<noteq> 200 then (Inl (StatusCodeError code), s4)
            else (case body of
                Inl err \<Rightarrow> (Inl err, s4)
              | Inr (KasAPIResponseEnvelope (KasAPIBody resp fault)) \<Rightarrow>
                 (case fault of
                    Some f \<Rightarrow> (Inl (RemoteFault f), s4)
                  | None \<Rightarrow>
                     (case resp of
                        None \<Rightarrow> (Inl NilPointerDereference, s4)
                      | Some (KasResponse ret) \<Rightarrow>
                         (let s5 = emit EvGetValue s4
                          in case ret of
                               None \<Rightarrow> (Inl NilPointerDereference, s5)
                             | Some item \<Rightarrow>
                                (let raw = getValue L item;
                                     s6 = emit EvDecode s5
                                 in case decode raw of
                                      None \<Rightarrow> (Inl StructDecodeError, s6)
                                    | Some g \<Rightarrow> (Inr g, s6)))))))"

text \<open>
  \<^verbatim>\<open>
  c.muFloodTime.Lock()
  c.floodTime = time.Now().Add(time.Duration(delay * float64(time.Second)))
  c.muFloodTime.Unlock()
  \<close>
\<close>

definition updateFloodTime :: "'f lib \<Rightarrow> 'f \<Rightarrow> state \<Rightarrow> state" where
  "updateFloodTime L delay s =
     (let s1 = emit EvLock s;
          s2 = s1\<lparr>floodTime := now s1 + Seconds L delay\<rparr>
      in emit EvUnlock s2)"

subsection \<open>The four DNS operations\<close>

text \<open>
  The three response structs (\<^verbatim>\<open>GetDNSSettingsResponse\<close>, \<^verbatim>\<open>AddDNSSettingsResponse\<close>,
  \<^verbatim>\<open>DeleteDNSSettingsResponse\<close>, each the one field \<^verbatim>\<open>Response\<close> of its API response)
  differ in the type of \<^verbatim>\<open>ReturnInfo\<close>: \<^verbatim>\<open>[]ReturnInfo\<close>, \<^verbatim>\<open>string\<close>, \<^verbatim>\<open>bool\<close>.
\<close>

record ('f, 'r) APIResponse =
  KasFloodDelay :: 'f
  ReturnInfo :: 'r
  ReturnString :: string

definition GetDNSSettings ::
  "'f lib \<Rightarrow> ('f any \<Rightarrow> ('f, 'r) APIResponse option) \<Rightarrow> net \<Rightarrow> Context \<Rightarrow> string \<Rightarrow> string \<Rightarrow>
   state \<Rightarrow> (error + 'r) \<times> state" where
  "GetDNSSettings L decode N ctx zone recordID s =
     (let requestParams = [''zone_host'' \<mapsto> zone];
          requestParams =
            (if recordID \<noteq> [] then requestParams(''record_id'' \<mapsto> recordID) else requestParams)
      in case Authentication N ctx s of
           (Inl err, s1) \<Rightarrow> (Inl err, s1)
         | (Inr credential, s1) \<Rightarrow>
            (let ctx = WithContext ctx credential
             in case newRequest s1 ctx ''get_dns_settings'' (ParamsMap requestParams) of
                  Inl err \<Rightarrow> (Inl err, s1)
                | Inr req \<Rightarrow>
                   (case do L decode N req s1 of
                      (Inl err, s2) \<Rightarrow> (Inl err, s2)
                    | (Inr g, s2) \<Rightarrow>
                       (Inr (ReturnInfo g), updateFloodTime L (KasFloodDelay g) s2))))"

definition AddDNSSettings ::
  "'f lib \<Rightarrow> ('f any \<Rightarrow> ('f, string) APIResponse option) \<Rightarrow> net \<Rightarrow> Context \<Rightarrow> DNSRequest \<Rightarrow>
   state \<Rightarrow> (error + string) \<times> state" where
  "AddDNSSettings L decode N ctx record s =
     (case Authentication N ctx s of
        (Inl err, s1) \<Rightarrow> (Inl err, s1)
      | (Inr credential, s1) \<Rightarrow>
         (let ctx = WithContext ctx credential
          in case newRequest s1 ctx ''add_dns_settings'' (ParamsRecord record) of
               Inl err \<Rightarrow> (Inl err, s1)
             | Inr req \<Rightarrow>
                (case do L decode N req s1 of
                   (Inl err, s2) \<Rightarrow> (Inl err, s2)
                 | (Inr g, s2) \<Rightarrow>
                    (Inr (ReturnInfo g), updateFloodTime L (KasFloodDelay g) s2))))"

definition UpdateDNSSettings ::
  "'f lib \<Rightarrow> ('f any \<Rightarrow> ('f, string) APIResponse option) \<Rightarrow> net \<Rightarrow> Context \<Rightarrow> DNSRequest \<Rightarrow>
   state \<Rightarrow> (error + string) \<times> state" where
  "UpdateDNSSettings L decode N ctx record s =
     (case Authentication N ctx s of
        (Inl err, s1) \<Rightarrow> (Inl err, s1)
      | (Inr credential, s1) \<Rightarrow>
         (let ctx = WithContext ctx credential
          in case newRequest s1 ctx ''update_dns_settings'' (ParamsRecord record) of
               Inl err \<Rightarrow> (Inl err, s1)
             | Inr req \<Rightarrow>
                (case do L decode N req s1 of
                   (Inl err, s2) \<Rightarrow> (Inl err, s2)
                 | (Inr g, s2) \<Rightarrow>
                    (Inr (ReturnInfo g), updateFloodTime L (KasFloodDelay g) s2))))"

definition DeleteDNSSettings ::
  "'f lib \<Rightarrow> ('f any \<Rightarrow> ('f, bool) APIResponse option) \<Rightarrow> net \<Rightarrow> Context \<Rightarrow> string \<Rightarrow>
   state \<Rightarrow> (error + bool) \<times> state" where
  "DeleteDNSSettings L decode N ctx recordID s =
     (case Authentication N ctx s of
        (Inl err, s1) \<Rightarrow> (Inl err, s1)
      | (Inr credential, s1) \<Rightarrow>
         (let ctx = WithContext ctx credential;
              requestParams = [''record_id'' \<mapsto> recordID]
          in case newRequest s1 ctx ''delete_dns_settings'' (ParamsMap requestParams) of
               Inl err \<Rightarrow> (Inl err, s1)
             | Inr req \<Rightarrow>
                (case do L decode N req s1 of
                   (Inl err, s2) \<Rightarrow> (Inl err, s2)
                 | (Inr g, s2) \<Rightarrow>
                    (Inr (ReturnInfo g), updateFloodTime L (KasFloodDelay g) s2))))"

text \<open>
  The statements that the four operations share behind their request: the test of the
  error of \<^verbatim>\<open>do\<close>, \<^verbatim>\<open>updateFloodTime\<close> and the return. The lemmas about the
  operations are stated once, about this tail.
\<close>

definition finish ::
  "'f lib \<Rightarrow> (error + ('f, 'r) APIResponse) \<times> state \<Rightarrow> (error + 'r) \<times> state" where
  "finish L x =
     (case x of
        (Inl err, s2) \<Rightarrow> (Inl err, s2)
      | (Inr g, s2) \<Rightarrow> (Inr (ReturnInfo g), updateFloodTime L (KasFloodDelay g) s2))"

subsection \<open>Inputs for evaluation\<close>

text \<open>
  A client of the user \<open>u\<close> whose deadline, 50, lies 30 nanoseconds ahead of the clock; a
  login response that carries the token \<open>tok\<close>; two networks whose login response has
  another return node, one that wraps the token in a value sub-node and one whose text
  \<open>007\<close> has an integer tag; and three networks that differ in the
  response to the API request: a Fault, a body with neither Fault nor
  \<^verbatim>\<open>KasApiResponse\<close>, and a return node that is the bare raw boolean \<open>true\<close>,
  which no result struct can take.
\<close>

definition idle :: state where
  "idle = \<lparr>ident = \<lparr>login = ''u'', password = ''p''\<rparr>, floodTime = 50, now = 20, trace = []\<rparr>"

definition tokenResponse :: "KasAuthEnvelope Response option" where
  "tokenResponse =
     Some (Response 200 (Inr (KasAuthEnvelope (KasAuthBody
       (Some (KasResponse (Some (Item ''tok'' ''xsd:string'' [] None None [])))) None))))"

definition wrappedToken :: Item where
  "wrappedToken = Item [] [] [] None (Some (Item ''tok'' ''xsd:string'' [] None None [])) []"

definition wrappedNet :: net where
  "wrappedNet =
     \<lparr>authHTTP = Some (Response 200 (Inr (KasAuthEnvelope (KasAuthBody
        (Some (KasResponse (Some wrappedToken))) None)))), authLatency = 1,
      apiHTTP = None, apiLatency = 2, overshoot = 3\<rparr>"

definition numberNet :: net where
  "numberNet =
     \<lparr>authHTTP = Some (Response 200 (Inr (KasAuthEnvelope (KasAuthBody
        (Some (KasResponse (Some (Item ''007'' ''xsd:int'' [] None None [])))) None)))),
      authLatency = 1, apiHTTP = None, apiLatency = 2, overshoot = 3\<rparr>"

definition badCredentials :: Fault where
  "badCredentials = \<lparr>Code = ''1234'', Message = ''bad credentials'', Actor = ''login''\<rparr>"

definition faultNet :: net where
  "faultNet =
     \<lparr>authHTTP = tokenResponse, authLatency = 1,
      apiHTTP = Some (Response 200 (Inr (KasAPIResponseEnvelope
        (KasAPIBody None (Some badCredentials))))),
      apiLatency = 2, overshoot = 3\<rparr>"

definition emptyNet :: net where
  "emptyNet =
     \<lparr>authHTTP = tokenResponse, authLatency = 1,
      apiHTTP = Some (Response 200 (Inr (KasAPIResponseEnvelope (KasAPIBody None None)))),
      apiLatency = 2, overshoot = 3\<rparr>"

definition trueNet :: net where
  "trueNet =
     \<lparr>authHTTP = tokenResponse, authLatency = 1,
      apiHTTP = Some (Response 200 (Inr (KasAPIResponseEnvelope (KasAPIBody
        (Some (KasResponse (Some (Item [] [] ''true'' None None [])))) None)))),
      apiLatency = 2, overshoot = 3\<rparr>"

text \<open>
  A stand-in for \<^verbatim>\<open>mapstructure.Decode\<close> where a closed statement needs one. With a
  struct as its target the library rejects every value that is not a map; the stand-in
  rejects, and no statement below applies it to a map.
\<close>

definition decodeNothing :: "int any \<Rightarrow> (int, 'r) APIResponse option" where
  "decodeNothing v = None"

section \<open>Properties of the interpreter\<close>

subsection \<open>The two loops\<close>

lemma foldl_append_map: "foldl (\<lambda>v i. v @ [f i]) acc xs = acc @ map f xs"
  by (induction xs arbitrary: acc) simp_all

lemma foldl_upd_map_of:
  "foldl (\<lambda>v i. v(k i \<mapsto> f i)) m xs = m ++ map_of (rev (map (\<lambda>i. (k i, f i)) xs))"
proof (induction xs arbitrary: m)
  case Nil
  show ?case by simp
next
  case (Cons x xs)
  have "m(k x \<mapsto> f x) ++ map_of (rev (map (\<lambda>i. (k i, f i)) xs)) =
        m ++ ([k x \<mapsto> f x] ++ map_of (rev (map (\<lambda>i. (k i, f i)) xs)))"
    by (rule ext) (simp add: map_add_def split: option.splits)
  then show ?case
    by (simp only: foldl_Cons Cons.IH list.map rev.simps map_of_append map_of.simps
        fst_conv snd_conv)
qed

lemma foldl_upd_dom:
  "dom (foldl (\<lambda>v i. v(k i \<mapsto> f i)) m xs) = dom m \<union> k ` set xs"
  by (induction xs arbitrary: m) auto

lemma foldl_upd_last:
  "key \<in> k ` set xs \<Longrightarrow>
   foldl (\<lambda>v i. v(k i \<mapsto> f i)) m xs key = Some (f (last (filter (\<lambda>i. k i = key) xs)))"
proof (induction xs arbitrary: m rule: rev_induct)
  case Nil
  then show ?case by simp
next
  case (snoc x xs)
  show ?case
  proof (cases "k x = key")
    case True
    then show ?thesis by simp
  next
    case False
    with snoc.prems have "key \<in> k ` set xs" by auto
    with False snoc.IH [of m] show ?thesis by simp
  qed
qed

lemma getValue_map_branch:
  "Raw item = [] \<Longrightarrow> Text item = [] \<Longrightarrow> Value item = None \<Longrightarrow> Items item \<noteq> [] \<Longrightarrow>
   Type item \<noteq> ''SOAP-ENC:Array'' \<Longrightarrow>
   getValue L item =
     VMap (foldl (\<lambda>v i. v(getKey i \<mapsto> getValue L i)) Map.empty (Items item))"
  by (cases item) simp

subsection \<open>What the parsers return beside an error\<close>

lemma ParseBool_error: "snd (ParseBool s) \<noteq> None \<Longrightarrow> fst (ParseBool s) = False"
  by (simp add: ParseBool_def split: if_splits)

lemma ParseUint_loop_error:
  "ParseUint_loop n s = (v, Some e) \<Longrightarrow> v = (if e = ErrSyntax then 0 else maxUint64)"
  by (induction n s rule: ParseUint_loop.induct) (auto simp: Let_def split: if_splits)

lemma ParseUint_error:
  "ParseUint s = (v, Some e) \<Longrightarrow> v = (if e = ErrSyntax then 0 else maxUint64)"
  by (auto simp: ParseUint_def dest: ParseUint_loop_error split: if_splits)

lemma ParseInt_syntax: "snd (ParseInt s) = Some ErrSyntax \<Longrightarrow> fst (ParseInt s) = 0"
  by (cases s) (auto simp: Let_def split: prod.splits if_splits)

lemma ParseInt_range:
  "snd (ParseInt s) = Some ErrRange \<Longrightarrow>
   fst (ParseInt s) = (if hd s = CHR ''-'' then - (2 ^ 63) else 2 ^ 63 - 1)"
  by (cases s) (auto simp: Let_def split: prod.splits if_splits)

subsection \<open>Precedence of the cases\<close>

text \<open>
  Claim C1. On every node \<^verbatim>\<open>getValue\<close> takes the first case that matches, in this
  order: a non-empty \<^verbatim>\<open>Raw\<close> gives the boolean \<^verbatim>\<open>ParseBool\<close> reads from it; else a
  non-empty \<^verbatim>\<open>Text\<close> gives the parsed float under the tag \<^verbatim>\<open>xsd:float\<close>, the parsed
  64-bit integer under \<^verbatim>\<open>xsd:int\<close>, and the text itself under \<^verbatim>\<open>xsd:string\<close> and
  every other tag; else a present \<^verbatim>\<open>Value\<close> gives the resolution of that sub-node; else
  children under the tag \<^verbatim>\<open>SOAP-ENC:Array\<close> give the list of the children's resolutions,
  in order (so of the same length); else children give a map built from the pairs of each
  child's key and resolution; else the result is the empty string.
\<close>

theorem getValue_precedence:
  "getValue L item =
    (if Raw item \<noteq> [] then VBool (fst (ParseBool (Raw item)))
     else if Text item \<noteq> [] then
       (if Type item = ''xsd:float'' then VFloat (fst (ParseFloat L (Text item)))
        else if Type item = ''xsd:int'' then VInt (fst (ParseInt (Text item)))
        else VString (Text item))
     else case Value item of
         Some v \<Rightarrow> getValue L v
       | None \<Rightarrow>
          if Items item \<noteq> [] \<and> Type item = ''SOAP-ENC:Array''
          then VSlice (map (getValue L) (Items item))
          else if Items item \<noteq> []
          then VMap (map_of (rev (map (\<lambda>i. (getKey i, getValue L i)) (Items item))))
          else VString [])"
  by (cases item) (simp add: foldl_append_map foldl_upd_map_of split: option.split)

text \<open>
  The theorem at seven nodes: a raw marker beside an integer text; an integer text beside
  a value sub-node; an unknown tag; a value sub-node beside a child; an array of three
  children; a map of one child; a node with nothing but a tag.
\<close>

theorem getValue_precedence_witness:
  "getValue wholeSeconds (Item ''7'' ''xsd:int'' ''true'' None None []) = VBool True \<and>
   getValue wholeSeconds
     (Item ''7'' ''xsd:int'' [] None (Some (Item ''x'' [] [] None None [])) []) = VInt 7 \<and>
   getValue wholeSeconds (Item ''7'' ''xsd:other'' [] None None []) = VString ''7'' \<and>
   getValue wholeSeconds
     (Item [] ''SOAP-ENC:Array'' [] None (Some (Item ''x'' [] [] None None []))
        [Item ''y'' [] [] None None []]) = VString ''x'' \<and>
   getValue wholeSeconds
     (Item [] ''SOAP-ENC:Array'' [] None None
        [Item ''b'' [] [] None None [], Item ''a'' [] [] None None [],
         Item ''b'' [] [] None None []]) =
     VSlice [VString ''b'', VString ''a'', VString ''b''] \<and>
   entries (getValue wholeSeconds
     (Item [] [] [] None None
        [Item ''1'' [] [] (Some (Item ''k'' [] [] None None [])) None []])) ''k'' =
     Some (VString ''1'') \<and>
   getValue wholeSeconds (Item [] ''xsd:int'' [] None None []) = VString []"
proof -
  have b: "ParseBool ''true'' = (True, None)" by (simp add: ParseBool_def)
  have i: "ParseInt ''7'' = (7, None)" by code_simp
  show ?thesis
    using b i
      getValue_precedence [of wholeSeconds "Item ''7'' ''xsd:int'' ''true'' None None []"]
      getValue_precedence [of wholeSeconds
        "Item ''7'' ''xsd:int'' [] None (Some (Item ''x'' [] [] None None [])) []"]
      getValue_precedence [of wholeSeconds "Item ''7'' ''xsd:other'' [] None None []"]
      getValue_precedence [of wholeSeconds "Item [] ''xsd:int'' [] None None []"]
    by simp
qed

subsection \<open>Map nodes\<close>

text \<open>
  Claim C4, as amended. A node reaches the map case only when the three cases before it
  do not apply. For every node with empty \<^verbatim>\<open>Raw\<close>, empty \<^verbatim>\<open>Text\<close>, no \<^verbatim>\<open>Value\<close>
  sub-node, a non-empty child list and a tag other than \<^verbatim>\<open>SOAP-ENC:Array\<close>, the result
  is a map; its key set is the set of the children's keys (\<^verbatim>\<open>getKey\<close>: the text of the
  key sub-node, the empty string without one); and every key is bound to the resolution of
  the last child that has this key. The map is a Go map: it keeps no insertion order.
\<close>

theorem getValue_map_node:
  assumes "Raw item = []" and "Text item = []" and "Value item = None"
    and "Items item \<noteq> []" and "Type item \<noteq> ''SOAP-ENC:Array''"
  shows "is_VMap (getValue L item) \<and>
    dom (entries (getValue L item)) = set (map getKey (Items item)) \<and>
    (\<forall>k \<in> set (map getKey (Items item)).
       entries (getValue L item) k =
         Some (getValue L (last (filter (\<lambda>c. getKey c = k) (Items item)))))"
  using assms by (simp add: getValue_map_branch foldl_upd_dom foldl_upd_last)

text \<open>Three children with the keys \<open>k\<close>, \<open>j\<close>, \<open>k\<close>: two entries, the later \<open>k\<close> wins.\<close>

theorem getValue_map_node_witness:
  "is_VMap (getValue wholeSeconds (Item [] [] [] None None
     [Item ''1'' [] [] (Some (Item ''k'' [] [] None None [])) None [],
      Item ''2'' [] [] (Some (Item ''j'' [] [] None None [])) None [],
      Item ''3'' [] [] (Some (Item ''k'' [] [] None None [])) None []])) \<and>
   dom (entries (getValue wholeSeconds (Item [] [] [] None None
     [Item ''1'' [] [] (Some (Item ''k'' [] [] None None [])) None [],
      Item ''2'' [] [] (Some (Item ''j'' [] [] None None [])) None [],
      Item ''3'' [] [] (Some (Item ''k'' [] [] None None [])) None []]))) = {''k'', ''j''} \<and>
   entries (getValue wholeSeconds (Item [] [] [] None None
     [Item ''1'' [] [] (Some (Item ''k'' [] [] None None [])) None [],
      Item ''2'' [] [] (Some (Item ''j'' [] [] None None [])) None [],
      Item ''3'' [] [] (Some (Item ''k'' [] [] None None [])) None []])) ''k'' =
     Some (VString ''3'')"
  using getValue_map_node [of "Item [] [] [] None None
     [Item ''1'' [] [] (Some (Item ''k'' [] [] None None [])) None [],
      Item ''2'' [] [] (Some (Item ''j'' [] [] None None [])) None [],
      Item ''3'' [] [] (Some (Item ''k'' [] [] None None [])) None []]" wholeSeconds]
  by simp

text \<open>
  The claim as stated fails on a node that has children and a non-array tag but also a
  text: the text case comes first and the result is a string. And the map keeps no order:
  the same two entries inserted in either order give the same value.
\<close>

theorem getValue_map_node_counterexample:
  "\<not> is_VMap (getValue wholeSeconds (Item ''x'' [] [] None None
       [Item ''1'' [] [] (Some (Item ''k'' [] [] None None [])) None []])) \<and>
   getValue wholeSeconds (Item [] [] [] None None
     [Item ''1'' [] [] (Some (Item ''k'' [] [] None None [])) None [],
      Item ''2'' [] [] (Some (Item ''j'' [] [] None None [])) None []]) =
   getValue wholeSeconds (Item [] [] [] None None
     [Item ''2'' [] [] (Some (Item ''j'' [] [] None None [])) None [],
      Item ''1'' [] [] (Some (Item ''k'' [] [] None None [])) None []])"
  by (simp add: fun_upd_twist)

text \<open>
  Claim C10, as amended. When \<^verbatim>\<open>getValue\<close> takes the map case, every child without a
  key sub-node has the empty key, and when some child has the empty key the entry of the
  empty string holds the resolution of the last child whose key is empty: a child without
  a key sub-node or one whose key sub-node has an empty text. When no child has a key
  sub-node with an empty text, that is the last child without a key sub-node.
\<close>

theorem getValue_keyless_children:
  assumes "Raw item = []" and "Text item = []" and "Value item = None"
    and "Items item \<noteq> []" and "Type item \<noteq> ''SOAP-ENC:Array''"
  shows "(\<forall>c \<in> set (Items item). Key c = None \<longrightarrow> getKey c = []) \<and>
    (\<forall>c \<in> set (Items item). getKey c = [] \<longrightarrow>
       entries (getValue L item) [] =
         Some (getValue L (last (filter (\<lambda>c. getKey c = []) (Items item))))) \<and>
    (\<forall>c \<in> set (Items item). Key c = None \<longrightarrow>
       (\<forall>d \<in> set (Items item). getKey d = [] \<longrightarrow> Key d = None) \<longrightarrow>
       entries (getValue L item) [] =
         Some (getValue L (last (filter (\<lambda>c. Key c = None) (Items item)))))"
proof -
  have k: "getKey c = []" if "Key c = None" for c
    using that by (cases c) simp
  have e: "entries (getValue L item) [] =
      Some (getValue L (last (filter (\<lambda>c. getKey c = []) (Items item))))"
    if "c \<in> set (Items item)" and "getKey c = []" for c
  proof -
    from that have "[] \<in> getKey ` set (Items item)" by force
    with assms show ?thesis by (simp add: getValue_map_branch foldl_upd_last)
  qed
  have f: "filter (\<lambda>c. getKey c = []) (Items item) = filter (\<lambda>c. Key c = None) (Items item)"
    if "\<forall>d \<in> set (Items item). getKey d = [] \<longrightarrow> Key d = None"
    using that k by (intro filter_cong) auto
  show ?thesis using k e f by (metis (no_types, lifting))
qed

text \<open>Children without key, with key \<open>k\<close>, without key: the empty key holds the third.\<close>

theorem getValue_keyless_children_witness:
  "entries (getValue wholeSeconds (Item [] [] [] None None
     [Item ''a'' [] [] None None [],
      Item ''b'' [] [] (Some (Item ''k'' [] [] None None [])) None [],
      Item ''c'' [] [] None None []])) [] = Some (VString ''c'')"
  using getValue_keyless_children [of "Item [] [] [] None None
     [Item ''a'' [] [] None None [],
      Item ''b'' [] [] (Some (Item ''k'' [] [] None None [])) None [],
      Item ''c'' [] [] None None []]" wholeSeconds]
  by simp

text \<open>
  The claim as stated fails when a later child has a key sub-node with empty text: of the
  children \<open>a\<close> and \<open>b\<close> without key and \<open>c\<close> with the empty key, the entry of the empty
  string holds \<open>c\<close>, not \<open>b\<close>, the last child without a key sub-node.
\<close>

theorem getValue_keyless_children_counterexample:
  "entries (getValue wholeSeconds (Item [] [] [] None None
     [Item ''a'' [] [] None None [],
      Item ''b'' [] [] None None [],
      Item ''c'' [] [] (Some (Item [] [] [] None None [])) None []])) [] =
     Some (VString ''c'') \<and>
   getValue wholeSeconds (Item ''b'' [] [] None None []) = VString ''b'' \<and>
   entries (getValue wholeSeconds (Item [] [] [] None None
     [Item ''a'' [] [] None None [],
      Item ''b'' [] [] None None [],
      Item ''c'' [] [] (Some (Item [] [] [] None None [])) None []])) [] \<noteq>
     Some (getValue wholeSeconds (Item ''b'' [] [] None None []))"
  by simp

subsection \<open>Termination\<close>

text \<open>
  Claim C8. \<^verbatim>\<open>getValue\<close> is a total function on the finite trees of type \<open>Item\<close>: its
  definition above is accepted with a termination proof. Its recursive calls are on the
  \<^verbatim>\<open>Value\<close> sub-node and on the elements of \<^verbatim>\<open>Items\<close>, each of them a strictly
  smaller tree, and the value it returns is of one of six kinds: boolean, string, float,
  integer, list or map.
\<close>

theorem getValue_subtrees:
  "(\<forall>v. Value item = Some v \<longrightarrow> size v < size item) \<and>
   (\<forall>c \<in> set (Items item). size c < size item) \<and>
   (is_VBool (getValue L item) \<or> is_VString (getValue L item) \<or>
    is_VFloat (getValue L item) \<or> is_VInt (getValue L item) \<or>
    is_VSlice (getValue L item) \<or> is_VMap (getValue L item))"
proof -
  have "\<forall>c \<in> set (Items item). size c < size item"
  proof (cases item)
    case (Item t ty r k v cs)
    have "size c \<le> size_list size cs" if "c \<in> set cs" for c
      using that by (rule size_list_estimation') simp
    with Item show ?thesis by (auto simp: less_Suc_eq_le intro: trans_le_add2)
  qed
  moreover have "\<forall>v. Value item = Some v \<longrightarrow> size v < size item"
    by (cases item) auto
  moreover have "is_VBool (getValue L item) \<or> is_VString (getValue L item) \<or>
    is_VFloat (getValue L item) \<or> is_VInt (getValue L item) \<or>
    is_VSlice (getValue L item) \<or> is_VMap (getValue L item)"
    by (cases "getValue L item") simp_all
  ultimately show ?thesis by blast
qed

text \<open>A wrapper around an array of two leaves: sizes 4, 3, 1 and 1, and a list.\<close>

theorem getValue_subtrees_witness:
  "size (Item [] ''SOAP-ENC:Array'' [] None None
      [Item ''a'' [] [] None None [], Item ''b'' [] [] None None []]) <
   size (Item [] [] [] None (Some (Item [] ''SOAP-ENC:Array'' [] None None
      [Item ''a'' [] [] None None [], Item ''b'' [] [] None None []])) []) \<and>
   size (Item ''a'' [] [] None None []) <
   size (Item [] ''SOAP-ENC:Array'' [] None None
      [Item ''a'' [] [] None None [], Item ''b'' [] [] None None []]) \<and>
   is_VSlice (getValue wholeSeconds (Item [] [] [] None (Some (Item [] ''SOAP-ENC:Array'' [] None None
      [Item ''a'' [] [] None None [], Item ''b'' [] [] None None []])) []))"
  using getValue_subtrees [of "Item [] [] [] None (Some (Item [] ''SOAP-ENC:Array'' [] None None
      [Item ''a'' [] [] None None [], Item ''b'' [] [] None None []])) []" wholeSeconds]
    getValue_subtrees [of "Item [] ''SOAP-ENC:Array'' [] None None
      [Item ''a'' [] [] None None [], Item ''b'' [] [] None None []]" wholeSeconds]
  by simp

subsection \<open>Texts the parsers reject\<close>

lemma ParseFloat_syntax:
  "snd (ParseFloat L s) = Some ErrSyntax \<Longrightarrow> fst (ParseFloat L s) = Zero L"
  by (auto simp: ParseFloat_def atof64_def split: option.splits prod.splits if_splits)

text \<open>
  Claim C6, as amended. \<^verbatim>\<open>getValue\<close> drops the parsers' errors and has no error
  result. A non-empty \<^verbatim>\<open>Raw\<close> marker that \<^verbatim>\<open>ParseBool\<close> rejects gives \<open>false\<close>.
  On a node with an empty \<^verbatim>\<open>Raw\<close> marker and a non-empty text: under the tag
  \<^verbatim>\<open>xsd:float\<close> a text that \<^verbatim>\<open>ParseFloat\<close> rejects with a syntax error gives the
  float 0; under \<^verbatim>\<open>xsd:int\<close> a text that \<^verbatim>\<open>ParseInt\<close> rejects with a syntax error
  gives 0, and one that it rejects with a range error gives the bound of \<^verbatim>\<open>int64\<close> on
  the side of its sign, \<open>2^63 - 1\<close> or \<open>- 2^63\<close>.
\<close>

theorem getValue_parse_errors:
 "(Raw item \<noteq> [] \<and> snd (ParseBool (Raw item)) \<noteq> None \<longrightarrow> getValue L item = VBool False) \<and>
  (Raw item = [] \<and> Text item \<noteq> [] \<and> Type item = ''xsd:float'' \<and>
   snd (ParseFloat L (Text item)) = Some ErrSyntax \<longrightarrow> getValue L item = VFloat (Zero L)) \<and>
  (Raw item = [] \<and> Text item \<noteq> [] \<and> Type item = ''xsd:int'' \<and>
   snd (ParseInt (Text item)) = Some ErrSyntax \<longrightarrow> getValue L item = VInt 0) \<and>
  (Raw item = [] \<and> Text item \<noteq> [] \<and> Type item = ''xsd:int'' \<and>
   snd (ParseInt (Text item)) = Some ErrRange \<longrightarrow>
     getValue L item = VInt (if hd (Text item) = CHR ''-'' then - (2 ^ 63) else 2 ^ 63 - 1))"
  by (cases item) (simp add: ParseBool_error ParseFloat_syntax ParseInt_syntax ParseInt_range)

text \<open>
  A marker \<open>yes\<close>; the float text \<open>1,5\<close>, of which \<^verbatim>\<open>readFloat\<close> takes the \<open>1\<close>
  and \<^verbatim>\<open>ParseFloat\<close> rejects the rest; the integer text \<open>12x\<close>; and an integer text
  below \<open>- 2^63\<close>.
\<close>

theorem getValue_parse_errors_witness:
  "snd (ParseFloat wholeSeconds ''1,5'') = Some ErrSyntax \<and>
   getValue wholeSeconds (Item [] [] ''yes'' None None []) = VBool False \<and>
   getValue wholeSeconds (Item ''1,5'' ''xsd:float'' [] None None []) = VFloat 0 \<and>
   getValue wholeSeconds (Item ''12x'' ''xsd:int'' [] None None []) = VInt 0 \<and>
   getValue wholeSeconds (Item ''-9223372036854775809'' ''xsd:int'' [] None None []) =
     VInt (- (2 ^ 63))"
proof -
  have b: "snd (ParseBool ''yes'') \<noteq> None" by (simp add: ParseBool_def)
  have f: "snd (ParseFloat wholeSeconds ''1,5'') = Some ErrSyntax"
    by (simp add: ParseFloat_def atof64_def wholeSeconds_def readWhole_def isDigit_def
        digitsValue_def)
  have z: "Zero wholeSeconds = 0" by (simp add: wholeSeconds_def)
  have s: "snd (ParseInt ''12x'') = Some ErrSyntax" by code_simp
  have r: "snd (ParseInt ''-9223372036854775809'') = Some ErrRange" by code_simp
  show ?thesis
    using getValue_parse_errors [of "Item [] [] ''yes'' None None []" wholeSeconds]
      getValue_parse_errors [of "Item ''1,5'' ''xsd:float'' [] None None []" wholeSeconds]
      getValue_parse_errors [of "Item ''12x'' ''xsd:int'' [] None None []" wholeSeconds]
      getValue_parse_errors
        [of "Item ''-9223372036854775809'' ''xsd:int'' [] None None []" wholeSeconds]
      b f z s r
    by simp
qed

text \<open>
  The claim as stated fails on integer texts out of range. For \<open>2^63\<close> \<^verbatim>\<open>ParseInt\<close>
  reports a range error and returns \<open>2^63 - 1\<close>, and that is the node's value, not 0. The
  same holds for a text with a byte that is no digit behind twenty nines: the digit loop
  overflows before it reaches the byte. And it fails on a node that has a \<^verbatim>\<open>Raw\<close>
  marker beside its text: the marker comes first, and the malformed texts \<open>12x\<close> under
  the tag \<^verbatim>\<open>xsd:int\<close> and \<open>1,5\<close> under \<^verbatim>\<open>xsd:float\<close> give the boolean of the
  marker, not 0.
\<close>

theorem getValue_parse_errors_counterexample:
  "snd (ParseInt ''9223372036854775808'') = Some ErrRange \<and>
   getValue wholeSeconds (Item ''9223372036854775808'' ''xsd:int'' [] None None []) =
     VInt 9223372036854775807 \<and>
   getValue wholeSeconds (Item ''9223372036854775808'' ''xsd:int'' [] None None []) \<noteq> VInt 0 \<and>
   \<not> isDigit (CHR ''x'') \<and>
   snd (ParseInt ''99999999999999999999x'') = Some ErrRange \<and>
   getValue wholeSeconds (Item ''99999999999999999999x'' ''xsd:int'' [] None None []) \<noteq> VInt 0 \<and>
   snd (ParseInt ''12x'') = Some ErrSyntax \<and>
   getValue wholeSeconds (Item ''12x'' ''xsd:int'' ''true'' None None []) = VBool True \<and>
   snd (ParseFloat wholeSeconds ''1,5'') = Some ErrSyntax \<and>
   getValue wholeSeconds (Item ''1,5'' ''xsd:float'' ''true'' None None []) = VBool True"
proof -
  have a: "ParseInt ''9223372036854775808'' = (9223372036854775807, Some ErrRange)"
    by code_simp
  have b: "ParseInt ''99999999999999999999x'' = (9223372036854775807, Some ErrRange)"
    by code_simp
  have c: "\<not> isDigit (CHR ''x'')" by (simp add: isDigit_def)
  have d: "snd (ParseInt ''12x'') = Some ErrSyntax" by code_simp
  have e: "snd (ParseFloat wholeSeconds ''1,5'') = Some ErrSyntax"
    by (simp add: ParseFloat_def atof64_def wholeSeconds_def readWhole_def isDigit_def
        digitsValue_def)
  from a b c d e show ?thesis by (simp add: ParseBool_def)
qed

section \<open>Properties of the client\<close>

subsection \<open>The steps of one request\<close>

lemma emit_simps [simp]:
  "trace (emit e s) = trace s @ [e]" "floodTime (emit e s) = floodTime s"
  "now (emit e s) = now s" "ident (emit e s) = ident s"
  by (simp_all add: emit_def)

lemma Sleep_simps [simp]:
  "trace (Sleep N d s) = trace s @ [EvSleep d]" "floodTime (Sleep N d s) = floodTime s"
  "now (Sleep N d s) = now s + (if d \<le> 0 then 0 else d + int (overshoot N))"
  "ident (Sleep N d s) = ident s"
  by (simp_all add: Sleep_def)

lemma updateFloodTime_simps [simp]:
  "floodTime (updateFloodTime L delay s) = now s + Seconds L delay"
  "now (updateFloodTime L delay s) = now s"
  "trace (updateFloodTime L delay s) = trace s @ [EvLock, EvUnlock]"
  "ident (updateFloodTime L delay s) = ident s"
  by (simp_all add: updateFloodTime_def Let_def)

lemma Sleep_reaches: "t \<le> now (Sleep N (Until s t) s)"
  by (simp add: Until_def)

lemmas do_splits = option.split Response.split sum.split
  KasAPIResponseEnvelope.split KasAPIBody.split KasResponse.split

lemmas auth_splits = option.split Response.split sum.split
  KasAuthEnvelope.split KasAuthBody.split KasResponse.split

lemma do_trace:
  "\<exists>rest. trace (snd (do L decode N req s)) =
      trace s @ [EvLock, EvSleep (Until s (floodTime s)), EvUnlock,
                 EvApi req (now (Sleep N (Until s (floodTime s)) s))] @ rest \<and>
     set rest \<subseteq> {EvGetValue, EvDecode}"
  by (simp add: do_def Let_def Until_def split: do_splits)

lemma do_floodTime: "floodTime (snd (do L decode N req s)) = floodTime s"
  by (simp add: do_def Let_def split: do_splits)

lemma do_now: "floodTime s \<le> now (snd (do L decode N req s))"
  by (simp add: do_def Let_def Until_def split: do_splits)

lemma do_fault:
  "apiHTTP N = Some (Response 200 (Inr (KasAPIResponseEnvelope (KasAPIBody resp (Some f))))) \<Longrightarrow>
   fst (do L decode N req s) = Inl (RemoteFault f) \<and>
   trace (snd (do L decode N req s)) =
      trace s @ [EvLock, EvSleep (Until s (floodTime s)), EvUnlock,
                 EvApi req (now (Sleep N (Until s (floodTime s)) s))]"
  by (simp add: do_def Let_def Until_def)

lemma Authentication_floodTime:
  "floodTime (snd (Authentication N ctx s)) = floodTime s"
  by (simp add: Authentication_def Let_def split: auth_splits)

lemma Authentication_events:
  "\<exists>evs. trace (snd (Authentication N ctx s)) = trace s @ evs \<and>
     (evs = [] \<or> (\<exists>ar. evs = [EvAuth ar (now s)]))"
  by (simp add: Authentication_def Let_def split: auth_splits)

subsection \<open>The operations in terms of their common tail\<close>

lemma GetDNSSettings_cases:
  "Authentication N ctx s = (a, s1) \<Longrightarrow>
   GetDNSSettings L decode N ctx zone recordID s =
     (case a of
        Inl err \<Rightarrow> (Inl err, s1)
      | Inr credential \<Rightarrow>
          finish L (do L decode N
            (KasRequest (login (ident s1)) ''session'' credential ''get_dns_settings''
               (ParamsMap
                 (if recordID \<noteq> [] then [''zone_host'' \<mapsto> zone, ''record_id'' \<mapsto> recordID]
                  else [''zone_host'' \<mapsto> zone]))) s1))"
  by (simp add: GetDNSSettings_def newRequest_def WithContext_def getToken_def finish_def Let_def
      split: sum.split)

lemma AddDNSSettings_cases:
  "Authentication N ctx s = (a, s1) \<Longrightarrow>
   AddDNSSettings L decode N ctx record s =
     (case a of
        Inl err \<Rightarrow> (Inl err, s1)
      | Inr credential \<Rightarrow>
          finish L (do L decode N
            (KasRequest (login (ident s1)) ''session'' credential ''add_dns_settings''
               (ParamsRecord record)) s1))"
  by (simp add: AddDNSSettings_def newRequest_def WithContext_def getToken_def finish_def Let_def
      split: sum.split)

lemma UpdateDNSSettings_cases:
  "Authentication N ctx s = (a, s1) \<Longrightarrow>
   UpdateDNSSettings L decode N ctx record s =
     (case a of
        Inl err \<Rightarrow> (Inl err, s1)
      | Inr credential \<Rightarrow>
          finish L (do L decode N
            (KasRequest (login (ident s1)) ''session'' credential ''update_dns_settings''
               (ParamsRecord record)) s1))"
  by (simp add: UpdateDNSSettings_def newRequest_def WithContext_def getToken_def finish_def
      Let_def split: sum.split)

lemma DeleteDNSSettings_cases:
  "Authentication N ctx s = (a, s1) \<Longrightarrow>
   DeleteDNSSettings L decode N ctx recordID s =
     (case a of
        Inl err \<Rightarrow> (Inl err, s1)
      | Inr credential \<Rightarrow>
          finish L (do L decode N
            (KasRequest (login (ident s1)) ''session'' credential ''delete_dns_settings''
               (ParamsMap [''record_id'' \<mapsto> recordID])) s1))"
  by (simp add: DeleteDNSSettings_def newRequest_def WithContext_def getToken_def finish_def
      Let_def split: sum.split)

lemma finish_fault:
  assumes "apiHTTP N =
    Some (Response 200 (Inr (KasAPIResponseEnvelope (KasAPIBody resp (Some f)))))"
  shows "fst (finish L (do L decode N req s)) = Inl (RemoteFault f) \<and>
     trace (snd (finish L (do L decode N req s))) =
       trace s @ [EvLock, EvSleep (Until s (floodTime s)), EvUnlock,
                  EvApi req (now (Sleep N (Until s (floodTime s)) s))] \<and>
     floodTime (snd (finish L (do L decode N req s))) = floodTime s"
  using do_fault [OF assms, of L decode req s] do_floodTime [of L decode N req s]
  by (cases "do L decode N req s") (simp add: finish_def)

lemma finish_trace:
  "\<exists>rest. trace (snd (finish L (do L decode N req s))) =
      trace s @ [EvLock, EvSleep (Until s (floodTime s)), EvUnlock,
                 EvApi req (now (Sleep N (Until s (floodTime s)) s))] @ rest \<and>
     set rest \<subseteq> {EvGetValue, EvDecode, EvLock, EvUnlock}"
proof -
  let ?w = "[EvLock, EvSleep (Until s (floodTime s)), EvUnlock,
             EvApi req (now (Sleep N (Until s (floodTime s)) s))]"
  obtain rest where r: "trace (snd (do L decode N req s)) = trace s @ ?w @ rest"
    and s: "set rest \<subseteq> {EvGetValue, EvDecode}"
    using do_trace [of L decode N req s] by blast
  show ?thesis
  proof (cases "do L decode N req s")
    case (Pair x s2)
    show ?thesis
    proof (cases x)
      case (Inl err)
      with Pair r s show ?thesis by (auto simp: finish_def)
    next
      case (Inr g)
      with Pair r have "trace (snd (finish L (do L decode N req s))) =
          trace s @ ?w @ (rest @ [EvLock, EvUnlock])"
        by (simp add: finish_def)
      moreover from s
      have "set (rest @ [EvLock, EvUnlock]) \<subseteq> {EvGetValue, EvDecode, EvLock, EvUnlock}"
        by auto
      ultimately show ?thesis by blast
    qed
  qed
qed

lemma operation_fault:
  assumes api: "apiHTTP N =
      Some (Response 200 (Inr (KasAPIResponseEnvelope (KasAPIBody resp (Some f)))))"
    and auth: "Authentication N ctx s = (Inr credential, s1)"
    and x: "x = finish L (do L d N req s1)"
  shows "fst x = Inl (RemoteFault f) \<and> floodTime (snd x) = floodTime s \<and>
    (\<exists>evs. trace (snd x) = trace s @ evs \<and> EvGetValue \<notin> set evs \<and> EvDecode \<notin> set evs)"
proof -
  let ?w = "[EvLock, EvSleep (Until s1 (floodTime s1)), EvUnlock,
             EvApi req (now (Sleep N (Until s1 (floodTime s1)) s1))]"
  obtain evs where evs: "trace s1 = trace s @ evs"
      "evs = [] \<or> (\<exists>ar. evs = [EvAuth ar (now s)])"
    using Authentication_events [of N ctx s] auth by auto
  have ft: "floodTime s1 = floodTime s"
    using Authentication_floodTime [of N ctx s] auth by simp
  have "trace (snd x) = trace s @ (evs @ ?w)"
    using finish_fault [OF api, of L d req s1] evs(1) x by simp
  moreover have "EvGetValue \<notin> set (evs @ ?w) \<and> EvDecode \<notin> set (evs @ ?w)"
    using evs(2) by auto
  ultimately show ?thesis
    using finish_fault [OF api, of L d req s1] ft x by metis
qed

lemma operation_trace:
  assumes x: "x = (case a of Inl err \<Rightarrow> (Inl err, s1)
                   | Inr credential \<Rightarrow> finish L (do L d N (mk credential) s1))"
  shows "(\<exists>err. a = Inl err \<and> trace (snd x) = trace s1) \<or>
       (\<exists>req rest. trace (snd x) = trace s1 @
            [EvLock, EvSleep (Until s1 (floodTime s1)), EvUnlock,
             EvApi req (now (Sleep N (Until s1 (floodTime s1)) s1))] @ rest \<and>
          set rest \<subseteq> {EvGetValue, EvDecode, EvLock, EvUnlock})"
proof (cases a)
  case (Inl err)
  with x show ?thesis by simp
next
  case (Inr credential)
  with x have "x = finish L (do L d N (mk credential) s1)" by simp
  with finish_trace [of L d N "mk credential" s1] show ?thesis by blast
qed

lemma login_with_tokenResponse:
  "authHTTP N = tokenResponse \<Longrightarrow>
   Authentication N None idle =
     (Inr ''tok'',
      idle\<lparr>now := 20 + int (authLatency N),
           trace := [EvAuth (AuthRequest ''u'' ''p'' ''plain'' 300 ''Y'') 20]\<rparr>)"
  by (simp add: Authentication_def getToken_def tokenResponse_def idle_def emit_def)

subsection \<open>A Fault ends the operation\<close>

text \<open>
  Claim C2. When the response to the API request is decoded to an envelope whose body has
  a Fault, each of the four DNS operations returns that Fault as its error (the value with
  its code, message and actor), whatever else the body holds. The events the operation
  adds to the trace hold neither \<open>EvGetValue\<close> nor \<open>EvDecode\<close>: neither \<^verbatim>\<open>getValue\<close>
  nor \<^verbatim>\<open>mapstructure.Decode\<close> is called; and the flood deadline is left as it was. The
  operation reaches the API request when \<^verbatim>\<open>Authentication\<close> has given it a credential.
\<close>

theorem fault_short_circuits:
  assumes api: "apiHTTP N =
      Some (Response 200 (Inr (KasAPIResponseEnvelope (KasAPIBody resp (Some f)))))"
    and auth: "Authentication N ctx s = (Inr credential, s1)"
  shows "fst (GetDNSSettings L dg N ctx zone recordID s) = Inl (RemoteFault f) \<and>
    fst (AddDNSSettings L da N ctx rec s) = Inl (RemoteFault f) \<and>
    fst (UpdateDNSSettings L da N ctx rec s) = Inl (RemoteFault f) \<and>
    fst (DeleteDNSSettings L dd N ctx recordID s) = Inl (RemoteFault f) \<and>
    (\<forall>s' \<in> {snd (GetDNSSettings L dg N ctx zone recordID s),
             snd (AddDNSSettings L da N ctx rec s),
             snd (UpdateDNSSettings L da N ctx rec s),
             snd (DeleteDNSSettings L dd N ctx recordID s)}.
       floodTime s' = floodTime s \<and>
       (\<exists>evs. trace s' = trace s @ evs \<and> EvGetValue \<notin> set evs \<and> EvDecode \<notin> set evs))"
proof -
  note gc = GetDNSSettings_cases [OF auth, simplified sum.case]
  note ac = AddDNSSettings_cases [OF auth, simplified sum.case]
  note uc = UpdateDNSSettings_cases [OF auth, simplified sum.case]
  note dc = DeleteDNSSettings_cases [OF auth, simplified sum.case]
  note g = operation_fault [OF api auth gc, of L dg zone recordID]
  note a = operation_fault [OF api auth ac, of L da rec]
  note u = operation_fault [OF api auth uc, of L da rec]
  note d = operation_fault [OF api auth dc, of L dd recordID]
  from g a u d show ?thesis
    by blast
qed

text \<open>
  The four operations against the network that answers with the Fault
  \<open>badCredentials\<close>, with a mapper that would reject every value.
\<close>

theorem fault_short_circuits_witness:
  "fst (GetDNSSettings wholeSeconds (decodeNothing :: int any \<Rightarrow> (int, unit list) APIResponse option)
          faultNet None ''example.com'' ''7'' idle) = Inl (RemoteFault badCredentials) \<and>
   fst (AddDNSSettings wholeSeconds decodeNothing faultNet None
          (DNSRequest [] ''example.com'' ''A'' ''www'' ''1.2.3.4'' 0) idle) =
     Inl (RemoteFault badCredentials) \<and>
   fst (UpdateDNSSettings wholeSeconds decodeNothing faultNet None
          (DNSRequest ''7'' ''example.com'' ''A'' ''www'' ''1.2.3.4'' 0) idle) =
     Inl (RemoteFault badCredentials) \<and>
   fst (DeleteDNSSettings wholeSeconds decodeNothing faultNet None ''7'' idle) =
     Inl (RemoteFault badCredentials) \<and>
   floodTime (snd (DeleteDNSSettings wholeSeconds decodeNothing faultNet None ''7'' idle)) = 50"
proof -
  have api: "apiHTTP faultNet =
      Some (Response 200 (Inr (KasAPIResponseEnvelope (KasAPIBody None (Some badCredentials)))))"
    by (simp add: faultNet_def)
  have "authHTTP faultNet = tokenResponse" by (simp add: faultNet_def)
  note auth = login_with_tokenResponse [OF this]
  have ft: "floodTime idle = 50" by (simp add: idle_def)
  show ?thesis
    using fault_short_circuits [OF api auth, where L = wholeSeconds
        and dg = "decodeNothing :: int any \<Rightarrow> (int, unit list) APIResponse option"
        and zone = "''example.com''" and recordID = "''7''" and da = decodeNothing
        and rec = "DNSRequest [] ''example.com'' ''A'' ''www'' ''1.2.3.4'' 0"
        and dd = decodeNothing]
      fault_short_circuits [OF api auth, where L = wholeSeconds
        and dg = "decodeNothing :: int any \<Rightarrow> (int, unit list) APIResponse option"
        and zone = "''example.com''" and recordID = "''7''" and da = decodeNothing
        and rec = "DNSRequest ''7'' ''example.com'' ''A'' ''www'' ''1.2.3.4'' 0"
        and dd = decodeNothing]
      ft
    by simp
qed

subsection \<open>A body without return node\<close>

text \<open>
  Claim C9. When the response is decoded to an envelope whose body has no Fault,
  \<^verbatim>\<open>do\<close> dereferences \<^verbatim>\<open>KasAPIResponse\<close> and its \<^verbatim>\<open>Return\<close> without a test: with
  no \<^verbatim>\<open>KasAPIResponse\<close>, or with one whose \<^verbatim>\<open>Return\<close> is nil, the outcome is a nil
  pointer dereference and not an error of decoding. Only with both present does \<^verbatim>\<open>do\<close>
  go on to \<^verbatim>\<open>getValue\<close> and \<^verbatim>\<open>mapstructure.Decode\<close>.
\<close>

theorem do_nil_return:
  assumes "apiHTTP N =
    Some (Response 200 (Inr (KasAPIResponseEnvelope (KasAPIBody resp None))))"
  shows "(resp = None \<or> resp = Some (KasResponse None) \<longrightarrow>
            fst (do L decode N req s) = Inl NilPointerDereference) \<and>
         (\<forall>item. resp = Some (KasResponse (Some item)) \<longrightarrow>
            fst (do L decode N req s) =
              (case decode (getValue L item) of
                 None \<Rightarrow> Inl StructDecodeError | Some g \<Rightarrow> Inr g))"
  using assms by (auto simp: do_def Let_def split: option.split)

text \<open>
  A body with neither Fault nor \<^verbatim>\<open>KasApiResponse\<close>, and a return node that is a bare
  boolean, which the mapper rejects.
\<close>

theorem do_nil_return_witness:
  "fst (do wholeSeconds (decodeNothing :: int any \<Rightarrow> (int, bool) APIResponse option) emptyNet
     (KasRequest ''u'' ''session'' ''tok'' ''delete_dns_settings'' (ParamsMap [''record_id'' \<mapsto> ''7'']))
     idle) = Inl NilPointerDereference \<and>
   fst (do wholeSeconds (decodeNothing :: int any \<Rightarrow> (int, bool) APIResponse option) trueNet
     (KasRequest ''u'' ''session'' ''tok'' ''delete_dns_settings'' (ParamsMap [''record_id'' \<mapsto> ''7'']))
     idle) = Inl StructDecodeError"
proof -
  have e: "apiHTTP emptyNet =
      Some (Response 200 (Inr (KasAPIResponseEnvelope (KasAPIBody None None))))"
    by (simp add: emptyNet_def)
  have t: "apiHTTP trueNet = Some (Response 200 (Inr (KasAPIResponseEnvelope (KasAPIBody
        (Some (KasResponse (Some (Item [] [] ''true'' None None [])))) None))))"
    by (simp add: trueNet_def)
  show ?thesis
    using do_nil_return [OF e, of wholeSeconds
        "decodeNothing :: int any \<Rightarrow> (int, bool) APIResponse option"
        "KasRequest ''u'' ''session'' ''tok'' ''delete_dns_settings''
           (ParamsMap [''record_id'' \<mapsto> ''7''])" idle]
      do_nil_return [OF t, of wholeSeconds
        "decodeNothing :: int any \<Rightarrow> (int, bool) APIResponse option"
        "KasRequest ''u'' ''session'' ''tok'' ''delete_dns_settings''
           (ParamsMap [''record_id'' \<mapsto> ''7''])" idle]
    by (simp add: decodeNothing_def)
qed

subsection \<open>Authentication\<close>

text \<open>
  Claim C5, as amended. With a non-empty token in the context, \<^verbatim>\<open>Authentication\<close>
  returns that token and leaves the state as it is: no request is sent. With no token
  (\<^verbatim>\<open>getToken\<close> gives the empty string), it sends exactly one login request, with the
  login, the password as \<^verbatim>\<open>AuthData\<close>, the \<^verbatim>\<open>AuthType\<close> \<open>plain\<close>, the
  \<^verbatim>\<open>SessionLifetime\<close> 300 and the \<^verbatim>\<open>SessionUpdateLifetime\<close> \<open>Y\<close>; when the response
  is decoded to a Fault the Fault is the error returned, and when it is decoded to a return
  node the token returned is the text of that node as it stands, \<^verbatim>\<open>Return.Text\<close>, which
  \<^verbatim>\<open>getValue\<close> has not seen. The two agree on a return node with an empty \<^verbatim>\<open>Raw\<close>
  marker, a non-empty text and a tag that is neither \<^verbatim>\<open>xsd:float\<close> nor \<^verbatim>\<open>xsd:int\<close>:
  there the text is the resolved value.
\<close>

theorem Authentication_token:
  "(getToken ctx \<noteq> [] \<longrightarrow> Authentication N ctx s = (Inr (getToken ctx), s)) \<and>
   (getToken ctx = [] \<longrightarrow>
      trace (snd (Authentication N ctx s)) =
        trace s @ [EvAuth (AuthRequest (login (ident s)) (password (ident s)) ''plain'' 300 ''Y'')
                     (now s)] \<and>
      (\<forall>resp f. authHTTP N =
           Some (Response 200 (Inr (KasAuthEnvelope (KasAuthBody resp (Some f))))) \<longrightarrow>
         fst (Authentication N ctx s) = Inl (RemoteFault f)) \<and>
      (\<forall>item. authHTTP N =
           Some (Response 200 (Inr (KasAuthEnvelope
             (KasAuthBody (Some (KasResponse (Some item))) None)))) \<longrightarrow>
         fst (Authentication N ctx s) = Inr (Text item) \<and>
         (Raw item = [] \<and> Text item \<noteq> [] \<and> Type item \<noteq> ''xsd:float'' \<and>
          Type item \<noteq> ''xsd:int'' \<longrightarrow> getValue L item = VString (Text item))))"
proof -
  have "getValue L item = VString (Text item)"
    if "Raw item = []" "Text item \<noteq> []" "Type item \<noteq> ''xsd:float''" "Type item \<noteq> ''xsd:int''"
    for item
    using that by (cases item) simp
  then show ?thesis
    by (simp add: Authentication_def Let_def split: auth_splits)
qed

theorem Authentication_token_witness:
  "Authentication faultNet (Some ''abc'') idle = (Inr ''abc'', idle) \<and>
   trace (snd (Authentication faultNet None idle)) =
     [EvAuth (AuthRequest ''u'' ''p'' ''plain'' 300 ''Y'') 20] \<and>
   fst (Authentication faultNet None idle) = Inr ''tok'' \<and>
   getValue wholeSeconds (Item ''tok'' ''xsd:string'' [] None None []) = VString ''tok'' \<and>
   fst (Authentication
     (faultNet\<lparr>authHTTP := Some (Response 200 (Inr (KasAuthEnvelope
        (KasAuthBody None (Some badCredentials)))))\<rparr>) None idle) =
     Inl (RemoteFault badCredentials)"
  using Authentication_token [where ctx = "Some ''abc''" and N = faultNet and s = idle
      and L = wholeSeconds]
    Authentication_token [where ctx = None and N = faultNet and s = idle and L = wholeSeconds]
    Authentication_token [where ctx = None and N = "faultNet\<lparr>authHTTP := Some (Response 200
        (Inr (KasAuthEnvelope (KasAuthBody None (Some badCredentials)))))\<rparr>" and s = idle
      and L = wholeSeconds]
  by (simp add: getToken_def faultNet_def tokenResponse_def idle_def)

text \<open>
  The claim as stated fails where the text of the return node is not its resolved value.
  A return node that wraps the token in a value sub-node has no text of its own:
  \<^verbatim>\<open>getValue\<close> resolves it to \<open>tok\<close> and \<^verbatim>\<open>Authentication\<close> returns the empty
  string. A return node \<open>007\<close> with the tag \<^verbatim>\<open>xsd:int\<close> resolves to the integer 7 and
  \<^verbatim>\<open>Authentication\<close> returns \<open>007\<close>.
\<close>

theorem Authentication_token_counterexample:
  "getValue wholeSeconds wrappedToken = VString ''tok'' \<and>
   fst (Authentication wrappedNet None idle) = Inr [] \<and>
   getValue wholeSeconds (Item ''007'' ''xsd:int'' [] None None []) = VInt 7 \<and>
   fst (Authentication numberNet None idle) = Inr ''007''"
proof -
  have i: "ParseInt ''007'' = (7, None)" by code_simp
  then show ?thesis
    by (simp add: wrappedToken_def wrappedNet_def numberNet_def Authentication_def
        getToken_def Let_def)
qed

subsection \<open>The wait before the request\<close>

lemma do_split: "do L decode N req s = doSend L decode N req (doWait N s)"
  by (simp only: do_def doSend_def doWait_def Let_def)

lemma doWait_simps [simp]:
  "trace (doWait N s) = trace s @ [EvLock, EvSleep (Until s (floodTime s)), EvUnlock]"
  "floodTime (doWait N s) = floodTime s"
  "now (doWait N s) = now (Sleep N (Until s (floodTime s)) s)"
  by (simp_all add: doWait_def Let_def Until_def)

lemma doSend_trace:
  "\<exists>rest. trace (snd (doSend L decode N req w)) = trace w @ [EvApi req (now w)] @ rest \<and>
     set rest \<subseteq> {EvGetValue, EvDecode}"
  by (simp add: doSend_def Let_def split: do_splits)

text \<open>
  Claim C7, as amended. Each of the four DNS operations, once \<^verbatim>\<open>Authentication\<close> has
  returned, either stops without an API request (when \<^verbatim>\<open>Authentication\<close> returned an
  error) or takes the lock, sleeps for the time left until the flood deadline it reads
  there, releases the lock and only then hands its API request to the transport: the wait
  lies between \<open>EvLock\<close> and \<open>EvUnlock\<close>, the request behind \<open>EvUnlock\<close>. Run alone,
  the operation sends the request at the clock value reached by the sleep, which is not
  before the deadline, and sends no other API request. Whatever other callers of the client
  do with the state between the release of the lock and the request (the last conjunct,
  for every state \<open>w\<close> that is not earlier than the end of the wait), the request is not
  sent before the deadline that the operation read under the lock. It is that deadline the
  operation waits for: not one that another caller records after the wait, and the login
  request of \<^verbatim>\<open>Authentication\<close> waits for none.
\<close>

theorem operations_wait_for_deadline:
  assumes auth: "Authentication N ctx s = (a, s1)"
  shows "floodTime s1 = floodTime s \<and>
    floodTime s1 \<le> now (Sleep N (Until s1 (floodTime s1)) s1) \<and>
    (\<forall>tr \<in> {trace (snd (GetDNSSettings L dg N ctx zone recordID s)),
             trace (snd (AddDNSSettings L da N ctx rec s)),
             trace (snd (UpdateDNSSettings L da N ctx rec s)),
             trace (snd (DeleteDNSSettings L dd N ctx recordID s))}.
       (\<exists>err. a = Inl err \<and> tr = trace s1) \<or>
       (\<exists>req rest. tr = trace s1 @
            [EvLock, EvSleep (Until s1 (floodTime s1)), EvUnlock,
             EvApi req (now (Sleep N (Until s1 (floodTime s1)) s1))] @ rest \<and>
          set rest \<subseteq> {EvGetValue, EvDecode, EvLock, EvUnlock})) \<and>
    do L dd N req s1 = doSend L dd N req (doWait N s1) \<and>
    trace (doWait N s1) = trace s1 @ [EvLock, EvSleep (Until s1 (floodTime s1)), EvUnlock] \<and>
    floodTime s1 \<le> now (doWait N s1) \<and>
    (\<forall>w. now (doWait N s1) \<le> now w \<longrightarrow>
       floodTime s1 \<le> now w \<and>
       (\<exists>rest. trace (snd (doSend L dd N req w)) = trace w @ [EvApi req (now w)] @ rest \<and>
          set rest \<subseteq> {EvGetValue, EvDecode}))"
proof -
  have ft: "floodTime s1 = floodTime s"
    using Authentication_floodTime [of N ctx s] auth by simp
  note gc = GetDNSSettings_cases [OF auth]
  note ac = AddDNSSettings_cases [OF auth]
  note uc = UpdateDNSSettings_cases [OF auth]
  note dc = DeleteDNSSettings_cases [OF auth]
  note g = operation_trace [OF gc, of L dg zone recordID]
  note ad = operation_trace [OF ac, of L da rec]
  note u = operation_trace [OF uc, of L da rec]
  note d = operation_trace [OF dc, of L dd recordID]
  have alone: "\<forall>tr \<in> {trace (snd (GetDNSSettings L dg N ctx zone recordID s)),
             trace (snd (AddDNSSettings L da N ctx rec s)),
             trace (snd (UpdateDNSSettings L da N ctx rec s)),
             trace (snd (DeleteDNSSettings L dd N ctx recordID s))}.
       (\<exists>err. a = Inl err \<and> tr = trace s1) \<or>
       (\<exists>req rest. tr = trace s1 @
            [EvLock, EvSleep (Until s1 (floodTime s1)), EvUnlock,
             EvApi req (now (Sleep N (Until s1 (floodTime s1)) s1))] @ rest \<and>
          set rest \<subseteq> {EvGetValue, EvDecode, EvLock, EvUnlock})"
    using g ad u d by blast
  have reach: "floodTime s1 \<le> now (Sleep N (Until s1 (floodTime s1)) s1)"
    by (rule Sleep_reaches)
  have later: "floodTime s1 \<le> now w \<and>
       (\<exists>rest. trace (snd (doSend L dd N req w)) = trace w @ [EvApi req (now w)] @ rest \<and>
          set rest \<subseteq> {EvGetValue, EvDecode})"
    if "now (doWait N s1) \<le> now w" for w
    using that reach doSend_trace [of L dd N req w] by simp
  from ft reach alone later do_split [of L dd N req s1] show ?thesis
    by (simp only: doWait_simps) blast
qed

text \<open>
  A delete against the network that answers with a Fault: the login at 20 takes 1, the
  deadline is 50, the sleep of 29 oversleeps by 3 and the request leaves at 53.
\<close>

theorem operations_wait_for_deadline_witness:
  "floodTime idle = 50 \<and>
   now (doWait faultNet (snd (Authentication faultNet None idle))) = 53 \<and>
   trace (snd (DeleteDNSSettings wholeSeconds
       (decodeNothing :: int any \<Rightarrow> (int, bool) APIResponse option) faultNet None ''7'' idle)) =
     [EvAuth (AuthRequest ''u'' ''p'' ''plain'' 300 ''Y'') 20,
      EvLock, EvSleep 29, EvUnlock,
      EvApi (KasRequest ''u'' ''session'' ''tok'' ''delete_dns_settings''
               (ParamsMap [''record_id'' \<mapsto> ''7''])) 53]"
proof -
  have "authHTTP faultNet = tokenResponse" by (simp add: faultNet_def)
  note auth = login_with_tokenResponse [OF this]
  have run: "trace (snd (DeleteDNSSettings wholeSeconds
       (decodeNothing :: int any \<Rightarrow> (int, bool) APIResponse option) faultNet None ''7'' idle)) =
     [EvAuth (AuthRequest ''u'' ''p'' ''plain'' 300 ''Y'') 20,
      EvLock, EvSleep 29, EvUnlock,
      EvApi (KasRequest ''u'' ''session'' ''tok'' ''delete_dns_settings''
               (ParamsMap [''record_id'' \<mapsto> ''7''])) 53]"
    by (simp add: DeleteDNSSettings_def Authentication_def newRequest_def WithContext_def
        getToken_def do_def Let_def Until_def Sleep_def emit_def faultNet_def
        tokenResponse_def idle_def)
  have w: "now (doWait faultNet (snd (Authentication faultNet None idle))) = 53"
    by (simp add: auth Until_def) (simp add: faultNet_def idle_def)
  have "floodTime (snd (Authentication faultNet None idle)) \<le>
      now (doWait faultNet (snd (Authentication faultNet None idle)))"
    using operations_wait_for_deadline [OF auth, where L = wholeSeconds
        and dg = "decodeNothing :: int any \<Rightarrow> (int, unit list) APIResponse option"
        and zone = "''example.com''" and recordID = "''7''" and da = decodeNothing
        and rec = "DNSRequest [] ''example.com'' ''A'' ''www'' ''1.2.3.4'' 0"
        and dd = "decodeNothing :: int any \<Rightarrow> (int, bool) APIResponse option"]
    by (simp add: auth)
  with run w show ?thesis by (simp add: auth idle_def)
qed

text \<open>
  The claim as stated fails for the deadline the callers share. The operation ends its
  wait at 53 and releases the lock; another caller, back from its own request, records a
  delay of ten seconds, so that the deadline is 10 s later than 53; the operation then
  sends its request at 53, before the deadline. And the login request of an operation
  without a token in its context is its first event, sent at 20 while the deadline is 50.
\<close>

theorem operations_wait_for_deadline_counterexample:
  "trace (snd (doSend wholeSeconds
       (decodeNothing :: int any \<Rightarrow> (int, bool) APIResponse option) faultNet
       (KasRequest ''u'' ''session'' ''tok'' ''delete_dns_settings''
          (ParamsMap [''record_id'' \<mapsto> ''7'']))
       (updateFloodTime wholeSeconds 10 (doWait faultNet idle)))) =
     [EvLock, EvSleep 30, EvUnlock, EvLock, EvUnlock,
      EvApi (KasRequest ''u'' ''session'' ''tok'' ''delete_dns_settings''
               (ParamsMap [''record_id'' \<mapsto> ''7''])) 53] \<and>
   floodTime (updateFloodTime wholeSeconds 10 (doWait faultNet idle)) = 10000000053 \<and>
   (53 :: int) < 10000000053 \<and>
   hd (trace (snd (DeleteDNSSettings wholeSeconds
       (decodeNothing :: int any \<Rightarrow> (int, bool) APIResponse option) faultNet None ''7'' idle))) =
     EvAuth (AuthRequest ''u'' ''p'' ''plain'' 300 ''Y'') 20 \<and>
   floodTime idle = 50 \<and> (20 :: int) < 50"
proof -
  have sec: "Seconds wholeSeconds 10 = 10000000000"
    by (simp add: wholeSeconds_def secondsAmd64_def)
  show ?thesis
    by (simp add: sec doSend_def Until_def DeleteDNSSettings_def Authentication_def
        newRequest_def WithContext_def getToken_def do_def Let_def Sleep_def emit_def
        faultNet_def tokenResponse_def idle_def)
qed

subsection \<open>The flood deadline\<close>

text \<open>
  Claim C3, as amended. \<^verbatim>\<open>updateFloodTime\<close> sets the deadline to the current time plus
  the duration that the delay converts to (\<open>Seconds\<close>), whatever the deadline was. When
  that duration is non-negative the new deadline is not before the current time; so the
  call leaves the deadline greater than or equal to its previous value whenever the
  duration is non-negative and the call is made at or after the previous deadline.
\<close>

theorem updateFloodTime_deadline:
  "floodTime (updateFloodTime L delay s) = now s + Seconds L delay \<and>
   (0 \<le> Seconds L delay \<longrightarrow> now s \<le> floodTime (updateFloodTime L delay s)) \<and>
   (0 \<le> Seconds L delay \<and> floodTime s \<le> now s \<longrightarrow>
      floodTime s \<le> floodTime (updateFloodTime L delay s))"
  by simp

text \<open>A delay of two seconds recorded at 70, behind the deadline 50.\<close>

theorem updateFloodTime_deadline_witness:
  "Seconds wholeSeconds 2 = 2000000000 \<and>
   floodTime (updateFloodTime wholeSeconds 2 (idle\<lparr>now := 70\<rparr>)) = 2000000070 \<and>
   (50::int) \<le> floodTime (updateFloodTime wholeSeconds 2 (idle\<lparr>now := 70\<rparr>))"
proof -
  have sec: "Seconds wholeSeconds 2 = 2000000000"
    by (simp add: wholeSeconds_def secondsAmd64_def)
  show ?thesis
    using updateFloodTime_deadline [of wholeSeconds 2 "idle\<lparr>now := 70\<rparr>"]
    by (simp add: sec idle_def)
qed

text \<open>
  The claim as stated fails when callers run side by side. Two operations pass the wait
  at time 0, while the deadline is 0. The response of the first arrives at once with a
  delay of ten seconds: the deadline becomes 10 s. The response of the second arrives one
  second later with a delay of zero: the deadline becomes 1 s. Both delays are
  non-negative and the second call moves the deadline backward. And a single caller moves
  it backward with a delay too large for a duration: ten thousand million seconds convert
  (on amd64) to \<open>- 2^63\<close> nanoseconds, and the call at 70, behind the deadline 50, sets
  the deadline far before 50.
\<close>

theorem updateFloodTime_deadline_counterexample:
  "0 \<le> Seconds wholeSeconds 10 \<and> 0 \<le> Seconds wholeSeconds 0 \<and>
   floodTime (updateFloodTime wholeSeconds 10 (idle\<lparr>floodTime := 0, now := 0\<rparr>)) =
     10000000000 \<and>
   floodTime (updateFloodTime wholeSeconds 0
     ((updateFloodTime wholeSeconds 10 (idle\<lparr>floodTime := 0, now := 0\<rparr>))
        \<lparr>now := 1000000000\<rparr>)) = 1000000000 \<and>
   \<not> floodTime (updateFloodTime wholeSeconds 10 (idle\<lparr>floodTime := 0, now := 0\<rparr>))
     \<le> floodTime (updateFloodTime wholeSeconds 0
         ((updateFloodTime wholeSeconds 10 (idle\<lparr>floodTime := 0, now := 0\<rparr>))
            \<lparr>now := 1000000000\<rparr>)) \<and>
   Seconds wholeSeconds 10000000000 = - 9223372036854775808 \<and>
   floodTime (idle\<lparr>now := 70\<rparr>) = 50 \<and>
   floodTime (updateFloodTime wholeSeconds 10000000000 (idle\<lparr>now := 70\<rparr>)) =
     - 9223372036854775738"
proof -
  have sec: "Seconds wholeSeconds 10 = 10000000000" "Seconds wholeSeconds 0 = 0"
    "Seconds wholeSeconds 10000000000 = - 9223372036854775808"
    by (simp_all add: wholeSeconds_def secondsAmd64_def roundTo1024_def)
  show ?thesis by (simp add: sec idle_def)
qed

end
